theory Spec2Isabelle
  imports Main
begin

section \<open>JavaScript strings\<close>

text \<open>
  A JavaScript string is a sequence of UTF-16 code units. The redirect endpoint
  (\<^verbatim>\<open>api/r.js\<close>) works on such strings throughout, and one of its response bodies holds
  a character outside Latin-1, so code units are modelled as natural numbers.
  \<open>str\<close> embeds an ASCII literal.
\<close>

type_synonym jsstring = "nat list"

definition str :: "string \<Rightarrow> jsstring" where
  "str s = map of_char s"

definition is_upper :: "nat \<Rightarrow> bool" where
  "is_upper c = (65 \<le> c \<and> c \<le> 90)"

definition is_lower :: "nat \<Rightarrow> bool" where
  "is_lower c = (97 \<le> c \<and> c \<le> 122)"

definition is_alpha :: "nat \<Rightarrow> bool" where
  "is_alpha c = (is_upper c \<or> is_lower c)"

definition is_digit :: "nat \<Rightarrow> bool" where
  "is_digit c = (48 \<le> c \<and> c \<le> 57)"

definition is_hex_digit :: "nat \<Rightarrow> bool" where
  "is_hex_digit c = (is_digit c \<or> (65 \<le> c \<and> c \<le> 70) \<or> (97 \<le> c \<and> c \<le> 102))"

definition hex_val :: "nat \<Rightarrow> nat" where
  "hex_val c = (if is_digit c then c - 48 else if 97 \<le> c then c - 87 else c - 55)"

definition ascii_lower :: "nat \<Rightarrow> nat" where
  "ascii_lower c = (if is_upper c then c + 32 else c)"

definition is_ascii :: "nat \<Rightarrow> bool" where
  "is_ascii c = (c < 128)"

text \<open>Upper-case hexadecimal digit of a value below 16, as the percent-encoders write it.\<close>

definition hex_upper :: "nat \<Rightarrow> nat" where
  "hex_upper d = (if d < 10 then 48 + d else 55 + d)"

definition percent_byte :: "nat \<Rightarrow> jsstring" where
  "percent_byte b = [37, hex_upper (b div 16 mod 16), hex_upper (b mod 16)]"

subsection \<open>UTF-8 and UTF-16\<close>

definition utf8_encode :: "nat \<Rightarrow> nat list" where
  "utf8_encode cp =
     (if cp < 128 then [cp]
      else if cp < 2048 then [192 + cp div 64, 128 + cp mod 64]
      else if cp < 65536 then [224 + cp div 4096, 128 + cp div 64 mod 64, 128 + cp mod 64]
      else [240 + cp div 262144 mod 8, 128 + cp div 4096 mod 64,
            128 + cp div 64 mod 64, 128 + cp mod 64])"

definition is_high_surrogate :: "nat \<Rightarrow> bool" where
  "is_high_surrogate c = (55296 \<le> c \<and> c \<le> 56319)"

definition is_low_surrogate :: "nat \<Rightarrow> bool" where
  "is_low_surrogate c = (56320 \<le> c \<and> c \<le> 57343)"

definition surrogate_pair :: "nat \<Rightarrow> nat \<Rightarrow> nat" where
  "surrogate_pair h l = 65536 + (h - 55296) * 1024 + (l - 56320)"

text \<open>UTF16EncodeCodePoint of ECMA-262.\<close>

definition utf16_encode :: "nat \<Rightarrow> jsstring" where
  "utf16_encode cp =
     (if cp < 65536 then [cp]
      else [55296 + (cp - 65536) div 1024, 56320 + (cp - 65536) mod 1024])"

text \<open>
  Conversion of a string to a sequence of scalar values (Web IDL \<^verbatim>\<open>USVString\<close>), which
  the URL constructor applies to its argument: a surrogate pair is one code point, a
  lone surrogate becomes U+FFFD.
\<close>

fun usv :: "jsstring \<Rightarrow> nat list" where
  "usv [] = []"
| "usv [c] = (if is_high_surrogate c \<or> is_low_surrogate c then [65533] else [c])"
| "usv (c # d # cs) =
     (if is_high_surrogate c \<and> is_low_surrogate d then surrogate_pair c d # usv cs
      else if is_high_surrogate c \<or> is_low_surrogate c then 65533 # usv (d # cs)
      else c # usv (d # cs))"

section \<open>ECMAScript built-ins used by the handler\<close>

subsection \<open>\<^verbatim>\<open>decodeURIComponent\<close>\<close>

text \<open>
  The \<^verbatim>\<open>Decode\<close> operation of ECMA-262 with an empty set of preserved escapes. A
  \<^verbatim>\<open>URIError\<close> is the value \<open>None\<close>. A percent sign must be followed by two
  hexadecimal digits; an octet with the high bit set starts a UTF-8 sequence whose
  remaining octets must be escaped too, and the sequence must be the valid encoding of a
  code point.
\<close>

definition hex_octet :: "nat \<Rightarrow> nat \<Rightarrow> nat option" where
  "hex_octet a b =
     (if is_hex_digit a \<and> is_hex_digit b then Some (hex_val a * 16 + hex_val b) else None)"

definition is_continuation :: "nat \<Rightarrow> bool" where
  "is_continuation b = (128 \<le> b \<and> b \<le> 191)"

text \<open>The code point of a well-formed UTF-8 sequence (Unicode, table 3-7), or \<open>None\<close>.\<close>

fun utf8_code_point :: "nat list \<Rightarrow> nat option" where
  "utf8_code_point [a, b] =
     (if 194 \<le> a \<and> a \<le> 223 \<and> is_continuation b
      then Some ((a - 192) * 64 + (b - 128)) else None)"
| "utf8_code_point [a, b, c] =
     (let v = (a - 224) * 4096 + (b - 128) * 64 + (c - 128)
      in if 224 \<le> a \<and> a \<le> 239 \<and> is_continuation b \<and> is_continuation c
            \<and> 2048 \<le> v \<and> \<not> (55296 \<le> v \<and> v \<le> 57343)
         then Some v else None)"
| "utf8_code_point [a, b, c, d] =
     (let v = (a - 240) * 262144 + (b - 128) * 4096 + (c - 128) * 64 + (d - 128)
      in if 240 \<le> a \<and> a \<le> 247 \<and> is_continuation b \<and> is_continuation c
            \<and> is_continuation d \<and> 65536 \<le> v \<and> v \<le> 1114111
         then Some v else None)"
| "utf8_code_point _ = None"

text \<open>Number of leading one bits of an octet with the high bit set.\<close>

definition leading_ones :: "nat \<Rightarrow> nat" where
  "leading_ones b =
     (if b < 192 then 1 else if b < 224 then 2 else if b < 240 then 3
      else if b < 248 then 4 else 5)"

text \<open>Reads \<open>j\<close> further escaped octets; \<open>None\<close> where \<^verbatim>\<open>Decode\<close> throws.\<close>

fun continuation_octets :: "nat \<Rightarrow> jsstring \<Rightarrow> (nat list \<times> jsstring) option" where
  "continuation_octets 0 s = Some ([], s)"
| "continuation_octets (Suc j) (p # a # b # s) =
     (if p \<noteq> 37 then None
      else case hex_octet a b of
             None \<Rightarrow> None
           | Some v \<Rightarrow> map_option (\<lambda>(bs, r). (v # bs, r)) (continuation_octets j s))"
| "continuation_octets (Suc j) _ = None"

function decodeURIComponent :: "jsstring \<Rightarrow> jsstring option" where
  "decodeURIComponent [] = Some []"
| "decodeURIComponent (c # s) =
     (if c \<noteq> 37 then map_option ((#) c) (decodeURIComponent s)
      else case s of
             a # b # t \<Rightarrow>
               (case hex_octet a b of
                  None \<Rightarrow> None
                | Some v \<Rightarrow>
                    if v < 128 then map_option ((#) v) (decodeURIComponent t)
                    else if leading_ones v = 1 \<or> 4 < leading_ones v then None
                    else (case continuation_octets (leading_ones v - 1) t of
                            None \<Rightarrow> None
                          | Some (bs, r) \<Rightarrow>
                              (case utf8_code_point (v # bs) of
                                 None \<Rightarrow> None
                               | Some cp \<Rightarrow>
                                   map_option ((@) (utf16_encode cp)) (decodeURIComponent r))))
           | _ \<Rightarrow> None)"
  by pat_completeness auto
termination
proof -
  have shorter: "length r \<le> length s" if "continuation_octets j s = Some (bs, r)"
    for j s bs r
    using that
  proof (induction j s arbitrary: bs r rule: continuation_octets.induct)
    case (2 j p a b s)
    then show ?case
      by (fastforce split: if_splits option.splits)
  qed auto
  show ?thesis
    by (relation "measure length") (auto dest: shorter)
qed

subsection \<open>\<^verbatim>\<open>encodeURIComponent\<close>\<close>

text \<open>
  The \<^verbatim>\<open>Encode\<close> operation of ECMA-262: letters, digits and \<^verbatim>\<open>-_.!~*'()\<close> are kept,
  every other code point is written as the escaped octets of its UTF-8 encoding, and a
  lone surrogate throws a \<^verbatim>\<open>URIError\<close> (\<open>None\<close>).
\<close>

definition uri_unescaped :: "nat \<Rightarrow> bool" where
  "uri_unescaped c = (is_alpha c \<or> is_digit c \<or> c \<in> set (str ''-_.!~*'' @ [39] @ str ''()''))"

definition escape_code_point :: "nat \<Rightarrow> jsstring" where
  "escape_code_point cp = concat (map percent_byte (utf8_encode cp))"

fun encodeURIComponent :: "jsstring \<Rightarrow> jsstring option" where
  "encodeURIComponent [] = Some []"
| "encodeURIComponent [c] =
     (if uri_unescaped c then Some [c]
      else if is_high_surrogate c \<or> is_low_surrogate c then None
      else Some (escape_code_point c))"
| "encodeURIComponent (c # d # s) =
     (if uri_unescaped c then map_option ((#) c) (encodeURIComponent (d # s))
      else if is_low_surrogate c then None
      else if is_high_surrogate c then
        (if is_low_surrogate d
         then map_option ((@) (escape_code_point (surrogate_pair c d))) (encodeURIComponent s)
         else None)
      else map_option ((@) (escape_code_point c)) (encodeURIComponent (d # s)))"

subsection \<open>String methods\<close>

text \<open>
  \<^verbatim>\<open>String.prototype.trim\<close> removes the code units of \<^verbatim>\<open>WhiteSpace\<close> and
  \<^verbatim>\<open>LineTerminator\<close> at both ends.
\<close>

definition is_js_whitespace :: "nat \<Rightarrow> bool" where
  "is_js_whitespace c =
     (c \<in> {9, 10, 11, 12, 13, 32, 160, 5760, 8232, 8233, 8239, 8287, 12288, 65279}
      \<or> (8192 \<le> c \<and> c \<le> 8202))"

definition trim :: "jsstring \<Rightarrow> jsstring" where
  "trim s = rev (dropWhile is_js_whitespace (rev (dropWhile is_js_whitespace s)))"

text \<open>
  \<^verbatim>\<open>s.split(sep)\<close> for a separator of one code unit: the pieces between the
  separators; the empty string gives one empty piece.
\<close>

fun split_on :: "nat \<Rightarrow> jsstring \<Rightarrow> jsstring list" where
  "split_on sep [] = [[]]"
| "split_on sep (c # s) =
     (if c = sep then [] # split_on sep s
      else case split_on sep s of
             [] \<Rightarrow> [[c]]
           | x # xs \<Rightarrow> (c # x) # xs)"

definition endsWith :: "jsstring \<Rightarrow> jsstring \<Rightarrow> bool" where
  "endsWith s t = (length t \<le> length s \<and> drop (length s - length t) s = t)"

text \<open>\<^verbatim>\<open>Array.prototype.join(',')\<close>, which \<^verbatim>\<open>String\<close> applies to an array of strings.\<close>

fun join_comma :: "jsstring list \<Rightarrow> jsstring" where
  "join_comma [] = []"
| "join_comma [x] = x"
| "join_comma (x # y # xs) = x @ 44 # join_comma (y # xs)"

section \<open>The URL constructor\<close>

text \<open>
  \<^verbatim>\<open>new URL(raw)\<close> runs the basic URL parser of the WHATWG URL Standard without a base
  URL. The model follows the standard's states for the special schemes that carry an
  authority (\<^verbatim>\<open>http\<close>, \<^verbatim>\<open>https\<close>, \<^verbatim>\<open>ws\<close>, \<^verbatim>\<open>wss\<close>, \<^verbatim>\<open>ftp\<close>). The one step that
  needs the Unicode tables, \<^verbatim>\<open>Unicode ToASCII\<close> of UTS 46 on a domain that is not plain
  ASCII, is a parameter \<open>idna\<close> of the parser.
\<close>

subsection \<open>Percent-encode sets\<close>

definition c0_control_set :: "nat \<Rightarrow> bool" where
  "c0_control_set c = (c \<le> 31 \<or> 126 < c)"

definition fragment_set :: "nat \<Rightarrow> bool" where
  "fragment_set c = (c0_control_set c \<or> c \<in> {32, 34, 60, 62, 96})"

definition query_set :: "nat \<Rightarrow> bool" where
  "query_set c = (c0_control_set c \<or> c \<in> {32, 34, 35, 60, 62})"

definition special_query_set :: "nat \<Rightarrow> bool" where
  "special_query_set c = (query_set c \<or> c = 39)"

definition path_set :: "nat \<Rightarrow> bool" where
  "path_set c = (query_set c \<or> c \<in> {63, 94, 96, 123, 125})"

definition userinfo_set :: "nat \<Rightarrow> bool" where
  "userinfo_set c = (path_set c \<or> c \<in> {47, 58, 59, 61, 64, 91, 92, 93, 124})"

text \<open>UTF-8 percent-encode a code point using a percent-encode set, and a whole string.\<close>

definition utf8_percent_encode :: "(nat \<Rightarrow> bool) \<Rightarrow> nat \<Rightarrow> jsstring" where
  "utf8_percent_encode S cp = (if S cp then escape_code_point cp else [cp])"

definition percent_encode_string :: "(nat \<Rightarrow> bool) \<Rightarrow> nat list \<Rightarrow> jsstring" where
  "percent_encode_string S s = concat (map (utf8_percent_encode S) s)"

subsection \<open>Hosts\<close>

datatype host = Domain jsstring | IPv4 nat | IPv6 "nat list"

definition forbidden_host_code_point :: "nat \<Rightarrow> bool" where
  "forbidden_host_code_point c =
     (c \<in> {0, 9, 10, 13, 32, 35, 47, 58, 60, 62, 63, 64, 91, 92, 93, 94, 124})"

definition forbidden_domain_code_point :: "nat \<Rightarrow> bool" where
  "forbidden_domain_code_point c =
     (forbidden_host_code_point c \<or> c \<le> 31 \<or> c = 37 \<or> c = 127)"

text \<open>Percent-decode a byte sequence: an escape that is not two hexadecimal digits stays.\<close>

fun percent_decode :: "nat list \<Rightarrow> nat list" where
  "percent_decode (c # a # b # r) =
     (if c = 37 \<and> is_hex_digit a \<and> is_hex_digit b
      then (hex_val a * 16 + hex_val b) # percent_decode r
      else c # percent_decode (a # b # r))"
| "percent_decode (c # r) = c # percent_decode r"
| "percent_decode [] = []"

text \<open>
  The UTF-8 decoder of the Encoding Standard, in replacement mode: \<open>needed\<close> is the number
  of continuation bytes still expected, \<open>lo\<close> and \<open>hi\<close> bound the next one, and a byte
  that does not fit yields U+FFFD and is read again as a first byte.
\<close>

fun utf8_decode :: "nat \<Rightarrow> nat \<Rightarrow> nat \<Rightarrow> nat \<Rightarrow> nat list \<Rightarrow> nat list" where
  "utf8_decode 0 cp lo hi [] = []"
| "utf8_decode (Suc n) cp lo hi [] = [65533]"
| "utf8_decode 0 cp lo hi (b # bs) =
     (if b \<le> 127 then b # utf8_decode 0 0 128 191 bs
      else if 194 \<le> b \<and> b \<le> 223 then utf8_decode 1 (b - 192) 128 191 bs
      else if 224 \<le> b \<and> b \<le> 239
        then utf8_decode 2 (b - 224) (if b = 224 then 160 else 128)
               (if b = 237 then 159 else 191) bs
      else if 240 \<le> b \<and> b \<le> 244
        then utf8_decode 3 (b - 240) (if b = 240 then 144 else 128)
               (if b = 244 then 143 else 191) bs
      else 65533 # utf8_decode 0 0 128 191 bs)"
| "utf8_decode (Suc n) cp lo hi (b # bs) =
     (if b < lo \<or> hi < b then 65533 # utf8_decode 0 0 128 191 (b # bs)
      else if n = 0 then (cp * 64 + (b - 128)) # utf8_decode 0 0 128 191 bs
      else utf8_decode n (cp * 64 + (b - 128)) 128 191 bs)"

definition utf8_decode_without_BOM :: "nat list \<Rightarrow> nat list" where
  "utf8_decode_without_BOM bs = utf8_decode 0 0 128 191 bs"

text \<open>
  Domain to ASCII with \<^verbatim>\<open>beStrict\<close> false. For an ASCII domain none of whose labels
  starts with \<^verbatim>\<open>xn--\<close> the standard states that \<^verbatim>\<open>Unicode ToASCII\<close> is ASCII
  lower-casing; every other domain goes to \<open>idna\<close>. An empty result and a forbidden
  domain code point in the result are failures.
\<close>

definition has_xn_label :: "jsstring \<Rightarrow> bool" where
  "has_xn_label d =
     list_ex (\<lambda>l. map ascii_lower (take 4 l) = str ''xn--'') (split_on 46 d)"

definition domain_to_ASCII :: "(nat list \<Rightarrow> jsstring option) \<Rightarrow> nat list \<Rightarrow> jsstring option" where
  "domain_to_ASCII idna d =
     (case (if list_all is_ascii d \<and> \<not> has_xn_label d then Some (map ascii_lower d)
            else idna d) of
        None \<Rightarrow> None
      | Some r \<Rightarrow>
          if r = [] \<or> list_ex forbidden_domain_code_point r then None else Some r)"

subsubsection \<open>IPv4\<close>

definition digits_value :: "nat \<Rightarrow> jsstring \<Rightarrow> nat" where
  "digits_value R ds = foldl (\<lambda>v c. v * R + hex_val c) 0 ds"

definition is_octal_digit :: "nat \<Rightarrow> bool" where
  "is_octal_digit c = (48 \<le> c \<and> c \<le> 55)"

text \<open>The IPv4 number parser: decimal, \<^verbatim>\<open>0x\<close> hexadecimal or \<^verbatim>\<open>0\<close> octal.\<close>

definition ipv4_number :: "jsstring \<Rightarrow> nat option" where
  "ipv4_number input =
     (if input = [] then None
      else if 2 \<le> length input \<and> (take 2 input = str ''0x'' \<or> take 2 input = str ''0X'')
        then (let ds = drop 2 input
              in if list_all is_hex_digit ds then Some (digits_value 16 ds) else None)
      else if 2 \<le> length input \<and> hd input = 48
        then (let ds = tl input
              in if list_all is_octal_digit ds then Some (digits_value 8 ds) else None)
      else if list_all is_digit input then Some (digits_value 10 input) else None)"

definition ends_in_number :: "jsstring \<Rightarrow> bool" where
  "ends_in_number input =
     (let parts = split_on 46 input
      in if last parts = [] \<and> length parts = 1 then False
         else (let parts' = (if last parts = [] then butlast parts else parts);
                   l = last parts'
               in (l \<noteq> [] \<and> list_all is_digit l) \<or> ipv4_number l \<noteq> None))"

definition ipv4_parse :: "jsstring \<Rightarrow> nat option" where
  "ipv4_parse input =
     (let parts = split_on 46 input;
          parts' = (if last parts = [] \<and> 1 < length parts then butlast parts else parts)
      in if 4 < length parts' then None
         else (let numbers = map ipv4_number parts'
               in if list_ex (\<lambda>n. n = None) numbers then None
                  else (let ns = map the numbers
                        in if list_ex (\<lambda>n. 255 < n) (butlast ns) then None
                           else if 256 ^ (5 - length ns) \<le> last ns then None
                           else Some (last ns
                                  + sum_list (map (\<lambda>(i, n). n * 256 ^ (3 - i))
                                      (zip [0 ..< length ns - 1] (butlast ns)))))))"

fun decimal :: "nat \<Rightarrow> jsstring" where
  "decimal n = (if n < 10 then [48 + n] else decimal (n div 10) @ [48 + n mod 10])"

declare decimal.simps [simp del]

definition ipv4_serialize :: "nat \<Rightarrow> jsstring" where
  "ipv4_serialize n =
     decimal (n div 16777216 mod 256) @ 46 # decimal (n div 65536 mod 256)
       @ 46 # decimal (n div 256 mod 256) @ 46 # decimal (n mod 256)"

subsubsection \<open>IPv6\<close>

text \<open>
  The four decimal numbers that may end an IPv6 address. A number has no leading zero
  and is at most 255.
\<close>

definition ipv4_piece :: "jsstring \<Rightarrow> nat option" where
  "ipv4_piece ds =
     (if ds = [] \<or> (1 < length ds \<and> hd ds = 48) \<or> 255 < digits_value 10 ds then None
      else Some (digits_value 10 ds))"

function ipv4_in_ipv6 :: "nat \<Rightarrow> jsstring \<Rightarrow> nat list option" where
  "ipv4_in_ipv6 seen s =
     (if s = [] then (if seen = 4 then Some [] else None)
      else if 0 < seen \<and> \<not> (hd s = 46 \<and> seen < 4) then None
      else (let s1 = (if 0 < seen then tl s else s)
            in case ipv4_piece (takeWhile is_digit s1) of
                 None \<Rightarrow> None
               | Some v \<Rightarrow> map_option ((#) v) (ipv4_in_ipv6 (Suc seen) (dropWhile is_digit s1))))"
  by pat_completeness auto
termination
proof (relation "measure (\<lambda>(seen, s). length s)")
  fix seen :: nat and s x2 :: jsstring and v :: nat
  assume ne: "s \<noteq> []" and x2: "x2 = (if 0 < seen then tl s else s)"
    and pc: "ipv4_piece (takeWhile is_digit x2) = Some v"
  have "takeWhile is_digit x2 \<noteq> []"
    using pc by (auto simp: ipv4_piece_def)
  then have "length (dropWhile is_digit x2) < length x2"
    by (cases x2) (auto intro: le_imp_less_Suc length_dropWhile_le split: if_splits)
  moreover have "length x2 \<le> length s"
    using x2 by simp
  ultimately show "((Suc seen, dropWhile is_digit x2), (seen, s)) \<in> measure (\<lambda>(seen, s). length s)"
    by simp
qed simp

declare ipv4_in_ipv6.simps [simp del]

text \<open>
  The main loop of the IPv6 parser. \<open>acc\<close> holds the pieces read so far, so the
  standard's \<^verbatim>\<open>pieceIndex\<close> is \<open>length acc\<close>; \<open>compress\<close> is the piece index after a
  \<^verbatim>\<open>::\<close>, which itself stands for one zero piece. At the end the pieces behind
  \<open>compress\<close> move to the back of the address.
\<close>

definition ipv6_finish :: "nat list \<Rightarrow> nat option \<Rightarrow> nat list option" where
  "ipv6_finish acc compress =
     (case compress of
        None \<Rightarrow> if length acc = 8 then Some acc else None
      | Some k \<Rightarrow> Some (take k acc @ replicate (8 - length acc) 0 @ drop k acc))"

function ipv6_loop :: "nat list \<Rightarrow> nat option \<Rightarrow> jsstring \<Rightarrow> nat list option" where
  "ipv6_loop acc compress s =
     (if s = [] then ipv6_finish acc compress
      else if length acc = 8 then None
      else if hd s = 58 then
        (if compress \<noteq> None then None
         else ipv6_loop (acc @ [0]) (Some (Suc (length acc))) (tl s))
      else (let ds = take 4 (takeWhile is_hex_digit s);
                r = drop (length ds) s
            in if r \<noteq> [] \<and> hd r = 46 then
                 (if ds = [] \<or> 6 < length acc then None
                  else case ipv4_in_ipv6 0 s of
                         Some [a, b, c, d] \<Rightarrow>
                           ipv6_finish (acc @ [a * 256 + b, c * 256 + d]) compress
                       | _ \<Rightarrow> None)
               else if r \<noteq> [] \<and> hd r = 58 then
                 (if tl r = [] then None
                  else ipv6_loop (acc @ [digits_value 16 ds]) compress (tl r))
               else if r \<noteq> [] then None
               else ipv6_loop (acc @ [digits_value 16 ds]) compress []))"
  by pat_completeness auto
termination
  by (relation "measure (\<lambda>(acc, compress, s). length s)") (auto simp: less_Suc_eq_le)

declare ipv6_loop.simps [simp del]

definition ipv6_parse :: "jsstring \<Rightarrow> nat list option" where
  "ipv6_parse input =
     (if input \<noteq> [] \<and> hd input = 58 then
        (if take 2 input = [58, 58] then ipv6_loop [0] (Some 1) (drop 2 input) else None)
      else ipv6_loop [] None input)"

text \<open>Shortest lower-case hexadecimal notation of a piece.\<close>

definition hex_lower :: "nat \<Rightarrow> nat" where
  "hex_lower d = (if d < 10 then 48 + d else 87 + d)"

fun hexadecimal :: "nat \<Rightarrow> jsstring" where
  "hexadecimal n =
     (if n < 16 then [hex_lower n] else hexadecimal (n div 16) @ [hex_lower (n mod 16)])"

declare hexadecimal.simps [simp del]

text \<open>
  The index of the first longest run of two or more zero pieces. The state is
  (\<^verbatim>\<open>longestIndex\<close>, \<^verbatim>\<open>longestSize\<close>, \<^verbatim>\<open>foundIndex\<close>, \<^verbatim>\<open>foundSize\<close>), stepped once per
  piece.
\<close>

definition compress_step ::
  "nat option \<times> nat \<times> nat option \<times> nat \<Rightarrow> nat \<times> nat \<Rightarrow> nat option \<times> nat \<times> nat option \<times> nat" where
  "compress_step st ip =
     (case st of (longestIndex, longestSize, foundIndex, foundSize) \<Rightarrow>
        (case ip of (pieceIndex, piece) \<Rightarrow>
           if piece \<noteq> 0 then
             (if longestSize < foundSize then (foundIndex, foundSize, None, 0)
              else (longestIndex, longestSize, None, 0))
           else (longestIndex, longestSize,
                 (if foundIndex = None then Some pieceIndex else foundIndex), Suc foundSize)))"

definition compressed_piece_index :: "nat list \<Rightarrow> nat option" where
  "compressed_piece_index address =
     (case foldl compress_step (None, 1, None, 0) (zip [0 ..< length address] address) of
        (longestIndex, longestSize, foundIndex, foundSize) \<Rightarrow>
          if longestSize < foundSize then foundIndex else longestIndex)"

text \<open>The serializer's loop over the pieces; the state is the output and \<^verbatim>\<open>ignore0\<close>.\<close>

definition ipv6_step :: "nat option \<Rightarrow> jsstring \<times> bool \<Rightarrow> nat \<times> nat \<Rightarrow> jsstring \<times> bool" where
  "ipv6_step compress st ip =
     (case st of (output, ignore0) \<Rightarrow>
        (case ip of (pieceIndex, piece) \<Rightarrow>
           if ignore0 \<and> piece = 0 then (output, ignore0)
           else if compress = Some pieceIndex
             then (output @ (if pieceIndex = 0 then [58, 58] else [58]), True)
           else (output @ hexadecimal piece @ (if pieceIndex \<noteq> 7 then [58] else []), False)))"

definition ipv6_serialize :: "nat list \<Rightarrow> jsstring" where
  "ipv6_serialize address =
     fst (foldl (ipv6_step (compressed_piece_index address)) ([], False)
            (zip [0 ..< length address] address))"

subsubsection \<open>The host parser and serializer\<close>

text \<open>The host parser for a special scheme (\<^verbatim>\<open>isOpaque\<close> false), on a non-empty input.\<close>

definition host_parse :: "(nat list \<Rightarrow> jsstring option) \<Rightarrow> nat list \<Rightarrow> host option" where
  "host_parse idna input =
     (if input \<noteq> [] \<and> hd input = 91 then
        (if last input \<noteq> 93 then None
         else map_option IPv6 (ipv6_parse (butlast (tl input))))
      else (case domain_to_ASCII idna
                   (utf8_decode_without_BOM (percent_decode (concat (map utf8_encode input)))) of
              None \<Rightarrow> None
            | Some asciiDomain \<Rightarrow>
                if ends_in_number asciiDomain then map_option IPv4 (ipv4_parse asciiDomain)
                else Some (Domain asciiDomain)))"

fun host_serialize :: "host \<Rightarrow> jsstring" where
  "host_serialize (Domain d) = d"
| "host_serialize (IPv4 n) = ipv4_serialize n"
| "host_serialize (IPv6 a) = 91 # ipv6_serialize a @ [93]"

subsection \<open>URL records\<close>

record url =
  url_scheme :: jsstring
  url_username :: jsstring
  url_password :: jsstring
  url_host :: host
  url_port :: "nat option"
  url_path :: "jsstring list"
  url_query :: "jsstring option"
  url_fragment :: "jsstring option"

text \<open>
  The result of the constructor. A scheme other than the five modelled ones
  (\<^verbatim>\<open>file\<close> or a non-special scheme) gives \<open>Other_scheme\<close>: there the constructor
  either throws or returns a URL with that scheme, and the model records the scheme only.
\<close>

datatype parsed = Failure | Other_scheme jsstring | Parsed url

definition default_port :: "jsstring \<Rightarrow> nat option" where
  "default_port sch =
     (if sch = str ''ftp'' then Some 21
      else if sch = str ''http'' \<or> sch = str ''ws'' then Some 80
      else if sch = str ''https'' \<or> sch = str ''wss'' then Some 443
      else None)"

subsection \<open>The parser's states\<close>

definition is_c0_or_space :: "nat \<Rightarrow> bool" where
  "is_c0_or_space c = (c \<le> 32)"

definition is_tab_or_newline :: "nat \<Rightarrow> bool" where
  "is_tab_or_newline c = (c = 9 \<or> c = 10 \<or> c = 13)"

definition is_scheme_char :: "nat \<Rightarrow> bool" where
  "is_scheme_char c = (is_alpha c \<or> is_digit c \<or> c = 43 \<or> c = 45 \<or> c = 46)"

text \<open>
  Scheme start state and scheme state: a letter, then letters, digits, \<^verbatim>\<open>+\<close>, \<^verbatim>\<open>-\<close>,
  \<^verbatim>\<open>.\<close>, lower-cased, up to a colon. Anything else leads to the no scheme state, which
  fails without a base URL.
\<close>

definition scheme_state :: "nat list \<Rightarrow> (jsstring \<times> nat list) option" where
  "scheme_state s =
     (case s of
        [] \<Rightarrow> None
      | c # cs \<Rightarrow>
          if \<not> is_alpha c then None
          else (case dropWhile is_scheme_char cs of
                  [] \<Rightarrow> None
                | d # rest \<Rightarrow>
                    if d = 58 then Some (map ascii_lower (c # takeWhile is_scheme_char cs), rest)
                    else None))"

definition is_slash :: "nat \<Rightarrow> bool" where
  "is_slash c = (c = 47 \<or> c = 92)"

text \<open>The code points that end the authority of a special URL.\<close>

definition ends_authority :: "nat \<Rightarrow> bool" where
  "ends_authority c = (c = 47 \<or> c = 63 \<or> c = 35 \<or> c = 92)"

text \<open>
  Authority state. Each \<^verbatim>\<open>@\<close> passes the buffer on to the credentials, a second and
  later one with \<^verbatim>\<open>%40\<close> put in front; the first colon separates username and
  password. So the credentials are read from the text before the last \<^verbatim>\<open>@\<close>, with the
  inner \<^verbatim>\<open>@\<close> written \<^verbatim>\<open>%40\<close>.
\<close>

definition credentials :: "nat list \<Rightarrow> jsstring \<times> jsstring" where
  "credentials ui =
     (let stream = concat (map (\<lambda>c. if c = 64 then str ''%40'' else [c]) ui)
      in (percent_encode_string userinfo_set (takeWhile (\<lambda>c. c \<noteq> 58) stream),
          percent_encode_string userinfo_set (drop 1 (dropWhile (\<lambda>c. c \<noteq> 58) stream))))"

text \<open>Host state: the host ends at the first colon outside square brackets.\<close>

fun host_state :: "bool \<Rightarrow> nat list \<Rightarrow> nat list \<times> nat list option" where
  "host_state insideBrackets [] = ([], None)"
| "host_state insideBrackets (c # cs) =
     (if c = 58 \<and> \<not> insideBrackets then ([], Some cs)
      else (case host_state (if c = 91 then True else if c = 93 then False else insideBrackets) cs of
              (h, p) \<Rightarrow> (c # h, p)))"

text \<open>
  Port state: digits only; a port above 65535 fails, the scheme's default port is
  stored as null.
\<close>

definition port_state :: "jsstring \<Rightarrow> nat list \<Rightarrow> nat option option" where
  "port_state sch buffer =
     (if \<not> list_all is_digit buffer then None
      else if buffer = [] then Some None
      else if 65535 < digits_value 10 buffer then None
      else if default_port sch = Some (digits_value 10 buffer) then Some None
      else Some (Some (digits_value 10 buffer)))"

text \<open>Path state, with the dot segments of the standard.\<close>

definition is_single_dot :: "jsstring \<Rightarrow> bool" where
  "is_single_dot b = (map ascii_lower b \<in> {str ''.'', str ''%2e''})"

definition is_double_dot :: "jsstring \<Rightarrow> bool" where
  "is_double_dot b =
     (map ascii_lower b \<in> {str ''..'', str ''.%2e'', str ''%2e.'', str ''%2e%2e''})"

definition path_segment :: "jsstring list \<Rightarrow> jsstring \<Rightarrow> bool \<Rightarrow> jsstring list" where
  "path_segment path buffer at_slash =
     (if is_double_dot buffer then (if at_slash then butlast path else butlast path @ [[]])
      else if is_single_dot buffer then (if at_slash then path else path @ [[]])
      else path @ [buffer])"

fun path_state :: "jsstring list \<Rightarrow> jsstring \<Rightarrow> nat list \<Rightarrow> jsstring list" where
  "path_state path buffer [] = path_segment path buffer False"
| "path_state path buffer (c # cs) =
     (if is_slash c then path_state (path_segment path buffer True) [] cs
      else path_state path (buffer @ utf8_percent_encode path_set c) cs)"

text \<open>Path start state: one slash or backslash is skipped.\<close>

definition path_start_state :: "nat list \<Rightarrow> jsstring list" where
  "path_start_state s = path_state [] [] (if s \<noteq> [] \<and> is_slash (hd s) then tl s else s)"

text \<open>
  From the special authority slashes state to the end, for a special scheme \<open>sch\<close>: all
  slashes and backslashes after the colon are skipped, the authority runs to the first
  of \<^verbatim>\<open>/ \ ? #\<close>, the path to the first of \<^verbatim>\<open>? #\<close>, the query to the first \<^verbatim>\<open>#\<close>.
\<close>

definition special_url :: "(nat list \<Rightarrow> jsstring option) \<Rightarrow> jsstring \<Rightarrow> nat list \<Rightarrow> parsed" where
  "special_url idna sch s =
     (let s1 = dropWhile is_slash s;
          authority = takeWhile (\<lambda>c. \<not> ends_authority c) s1;
          s2 = dropWhile (\<lambda>c. \<not> ends_authority c) s1;
          hostport = rev (takeWhile (\<lambda>c. c \<noteq> 64) (rev authority));
          (username, password) =
            (if 64 \<in> set authority
             then credentials (take (length authority - length hostport - 1) authority)
             else ([], []));
          (buffer, port_buffer) = host_state False hostport
      in if buffer = [] then Failure
         else (case host_parse idna buffer of
                 None \<Rightarrow> Failure
               | Some h \<Rightarrow>
                   (case port_state sch (case port_buffer of None \<Rightarrow> [] | Some b \<Rightarrow> b) of
                      None \<Rightarrow> Failure
                    | Some p \<Rightarrow>
                        (let s3 = dropWhile (\<lambda>c. c \<noteq> 63 \<and> c \<noteq> 35) s2;
                             s4 = dropWhile (\<lambda>c. c \<noteq> 35) s3
                         in Parsed \<lparr>
                              url_scheme = sch,
                              url_username = username,
                              url_password = password,
                              url_host = h,
                              url_port = p,
                              url_path = path_start_state (takeWhile (\<lambda>c. c \<noteq> 63 \<and> c \<noteq> 35) s2),
                              url_query =
                                (if s3 \<noteq> [] \<and> hd s3 = 63
                                 then Some (percent_encode_string special_query_set
                                        (takeWhile (\<lambda>c. c \<noteq> 35) (tl s3)))
                                 else None),
                              url_fragment =
                                (if s4 \<noteq> [] then Some (percent_encode_string fragment_set (tl s4))
                                 else None) \<rparr>))))"

text \<open>
  The basic URL parser: leading and trailing C0 controls and spaces are removed, then
  all tabs and newlines, then the scheme decides.
\<close>

definition URL_parse :: "(nat list \<Rightarrow> jsstring option) \<Rightarrow> jsstring \<Rightarrow> parsed" where
  "URL_parse idna input =
     (let s = filter (\<lambda>c. \<not> is_tab_or_newline c)
                (rev (dropWhile is_c0_or_space (rev (dropWhile is_c0_or_space (usv input)))))
      in case scheme_state s of
           None \<Rightarrow> Failure
         | Some (sch, rest) \<Rightarrow>
             if default_port sch = None then Other_scheme sch else special_url idna sch rest)"

subsection \<open>Serializer and getters\<close>

text \<open>\<^verbatim>\<open>u.toString()\<close> and \<^verbatim>\<open>u.href\<close>: the URL serializer.\<close>

definition href :: "url \<Rightarrow> jsstring" where
  "href u =
     url_scheme u @ str ''://''
     @ (if url_username u \<noteq> [] \<or> url_password u \<noteq> []
        then url_username u @ (if url_password u \<noteq> [] then 58 # url_password u else []) @ [64]
        else [])
     @ host_serialize (url_host u)
     @ (case url_port u of None \<Rightarrow> [] | Some p \<Rightarrow> 58 # decimal p)
     @ concat (map (\<lambda>seg. 47 # seg) (url_path u))
     @ (case url_query u of None \<Rightarrow> [] | Some q \<Rightarrow> 63 # q)
     @ (case url_fragment u of None \<Rightarrow> [] | Some f \<Rightarrow> 35 # f)"

definition protocol :: "url \<Rightarrow> jsstring" where
  "protocol u = url_scheme u @ [58]"

definition hostname :: "url \<Rightarrow> jsstring" where
  "hostname u = host_serialize (url_host u)"

section \<open>The redirect endpoint\<close>

subsection \<open>Values, requests, environment, effects\<close>

text \<open>
  A query parameter of the request is absent, a string, or an array of strings (a
  repeated parameter). \<open>truthy\<close> is JavaScript's \<^verbatim>\<open>ToBoolean\<close> and \<open>String\<close> its
  \<^verbatim>\<open>String(v)\<close> on these values.
\<close>

datatype jsvalue = Undefined | JString jsstring | JArray "jsstring list"

fun truthy :: "jsvalue \<Rightarrow> bool" where
  "truthy Undefined = False"
| "truthy (JString s) = (s \<noteq> [])"
| "truthy (JArray xs) = True"

fun String :: "jsvalue \<Rightarrow> jsstring" where
  "String Undefined = str ''undefined''"
| "String (JString s) = s"
| "String (JArray xs) = join_comma xs"

record query =
  q_rid :: jsvalue
  q_dest :: jsvalue

record request =
  req_query :: "query option"

record env =
  ALLOWED_DOMAINS :: "jsstring option"
  TRACKER_URL :: "jsstring option"

text \<open>\<^verbatim>\<open>process.env.NAME || ''\<close>\<close>

definition or_empty :: "jsstring option \<Rightarrow> jsstring" where
  "or_empty v = (case v of None \<Rightarrow> [] | Some s \<Rightarrow> s)"

text \<open>
  What the tracker call can do: the promise of \<^verbatim>\<open>fetch\<close> is fulfilled with a response
  of some status, it is rejected (network error), it is rejected because the timer aborted
  it, or the call itself throws.
\<close>

datatype fetch_outcome = Fulfilled nat | Rejected | Aborted | Throws

text \<open>The handler's effects, in the order in which it performs them.\<close>

datatype event =
    StatusCode nat
  | SetHeader jsstring jsstring
  | End jsstring
  | SetTimeout nat
  | Fetch jsstring
  | ClearTimeout
  | ConsoleError

datatype completion = Normal | Throw

definition DEFAULT_TRACK_TIMEOUT_MS :: nat where
  "DEFAULT_TRACK_TIMEOUT_MS = 700"

subsection \<open>\<^verbatim>\<open>normalizeDest\<close>\<close>

text \<open>\<^verbatim>\<open>/^[a-zA-Z][a-zA-Z0-9+.-]*:\/\//.test(raw)\<close>\<close>

definition has_scheme :: "jsstring \<Rightarrow> bool" where
  "has_scheme raw =
     (case raw of
        [] \<Rightarrow> False
      | c # cs \<Rightarrow> is_alpha c \<and> take 3 (dropWhile is_scheme_char cs) = str ''://'')"

text \<open>
  The specification's wording of the same test, for comparison: the string starts with a
  letter, then letters, digits, \<^verbatim>\<open>+\<close>, \<^verbatim>\<open>-\<close>, \<^verbatim>\<open>.\<close>, then \<^verbatim>\<open>://\<close>.
\<close>

definition starts_with_uri_scheme :: "jsstring \<Rightarrow> bool" where
  "starts_with_uri_scheme raw =
     (\<exists>a body rest. raw = a # body @ str ''://'' @ rest \<and> is_alpha a
        \<and> (\<forall>c \<in> set body. is_alpha c \<or> is_digit c \<or> c \<in> set (str ''+-.'')))"

text \<open>\<^verbatim>\<open>/^https?:$/i.test(p)\<close>\<close>

definition is_http :: "jsstring \<Rightarrow> bool" where
  "is_http p = (map ascii_lower p = str ''http:'' \<or> map ascii_lower p = str ''https:'')"

text \<open>
  Line 14: \<^verbatim>\<open>try { raw = decodeURIComponent(raw); } catch (e) { }\<close> keeps the string
  when decoding throws. Line 16 puts \<^verbatim>\<open>https://\<close> in front of a string without a scheme.
\<close>

definition safe_decode :: "jsstring \<Rightarrow> jsstring" where
  "safe_decode raw = (case decodeURIComponent raw of None \<Rightarrow> raw | Some d \<Rightarrow> d)"

definition add_scheme :: "jsstring \<Rightarrow> jsstring" where
  "add_scheme raw = (if \<not> has_scheme raw then str ''https://'' @ raw else raw)"

text \<open>
  \<open>None\<close> is \<^verbatim>\<open>null\<close>. For a scheme outside the model the constructor throws or returns
  a URL whose protocol is not \<^verbatim>\<open>http:\<close> or \<^verbatim>\<open>https:\<close>; both give \<^verbatim>\<open>null\<close>.
\<close>

definition normalizeDest :: "(nat list \<Rightarrow> jsstring option) \<Rightarrow> jsvalue \<Rightarrow> jsstring option" where
  "normalizeDest idna raw =
     (if \<not> truthy raw then None
      else (case URL_parse idna (add_scheme (safe_decode (String raw))) of
              Failure \<Rightarrow> None
            | Other_scheme sch \<Rightarrow> None
            | Parsed u \<Rightarrow> if \<not> is_http (protocol u) then None else Some (href u)))"

subsection \<open>The handler\<close>

definition text_plain :: jsstring where
  "text_plain = str ''text/plain; charset=utf-8''"

definition redirect_body :: "jsstring \<Rightarrow> jsstring" where
  "redirect_body dest =
     str ''<html><body>Redirecting'' @ [8230]
     @ str '' If you are not redirected automatically, <a href=\"'' @ dest
     @ str ''\">click here</a>.</body></html>''"

text \<open>
  The allowlist check of lines 48 to 62. \<open>None\<close>: \<^verbatim>\<open>new URL(dest)\<close> threw. The
  scheme of \<open>dest\<close> is always a modelled one (lemma \<open>allowlist_scheme\<close> below).
\<close>

definition allowedList :: "jsstring \<Rightarrow> jsstring list" where
  "allowedList allowed = filter (\<lambda>s. s \<noteq> []) (map trim (split_on 44 allowed))"

definition host_ok :: "jsstring \<Rightarrow> jsstring list \<Rightarrow> bool" where
  "host_ok host as = list_ex (\<lambda>a. host = a \<or> endsWith host (46 # a)) as"

definition allowlist_check :: "(nat list \<Rightarrow> jsstring option) \<Rightarrow> jsstring \<Rightarrow> jsstring \<Rightarrow> bool option" where
  "allowlist_check idna allowed dest =
     (if trim allowed = [] then Some True
      else (case URL_parse idna dest of
              Parsed u \<Rightarrow> Some (host_ok (hostname u) (allowedList allowed))
            | _ \<Rightarrow> None))"

text \<open>
  The tracker block of lines 64 to 84, inside its own \<^verbatim>\<open>try\<close>: a \<^verbatim>\<open>URIError\<close> of
  \<^verbatim>\<open>encodeURIComponent\<close> and a throwing \<^verbatim>\<open>fetch\<close> are caught there, a rejected promise
  by \<^verbatim>\<open>.catch\<close>.
\<close>

definition trackerUrl :: "jsstring \<Rightarrow> jsvalue \<Rightarrow> jsstring \<Rightarrow> jsstring option" where
  "trackerUrl tracker rid dest =
     (case encodeURIComponent (if truthy rid then String rid else []) of
        None \<Rightarrow> None
      | Some r \<Rightarrow>
          (case encodeURIComponent dest of
             None \<Rightarrow> None
           | Some d \<Rightarrow>
               Some (tracker @ (if 63 \<notin> set tracker then str ''?'' else str ''&'')
                     @ str ''action=track&rid='' @ r @ str ''&dest='' @ d)))"

definition notify :: "(jsstring \<Rightarrow> fetch_outcome) \<Rightarrow> jsstring \<Rightarrow> jsvalue \<Rightarrow> jsstring \<Rightarrow> event list" where
  "notify fetch tracker rid dest =
     (if tracker = [] then []
      else (case trackerUrl tracker rid dest of
              None \<Rightarrow> []
            | Some t \<Rightarrow>
                (case fetch t of
                   Throws \<Rightarrow> [SetTimeout DEFAULT_TRACK_TIMEOUT_MS, Fetch t]
                 | _ \<Rightarrow> [SetTimeout DEFAULT_TRACK_TIMEOUT_MS, Fetch t, ClearTimeout])))"

text \<open>
  \<^verbatim>\<open>const { rid = '', dest: rawDest } = req.query || {}\<close>: a missing query object
  gives both parameters absent, and an absent \<^verbatim>\<open>rid\<close> is the empty string.
\<close>

definition query_rid :: "request \<Rightarrow> jsvalue" where
  "query_rid req =
     (case req_query req of
        None \<Rightarrow> JString []
      | Some q \<Rightarrow> if q_rid q = Undefined then JString [] else q_rid q)"

definition query_dest :: "request \<Rightarrow> jsvalue" where
  "query_dest req = (case req_query req of None \<Rightarrow> Undefined | Some q \<Rightarrow> q_dest q)"

definition plain :: "nat \<Rightarrow> jsstring \<Rightarrow> event list" where
  "plain code msg = [StatusCode code, SetHeader (str ''content-type'') text_plain, End msg]"

definition redirect :: "jsstring \<Rightarrow> event list" where
  "redirect dest =
     [StatusCode 302, SetHeader (str ''Location'') dest,
      SetHeader (str ''Content-Type'') (str ''text/html; charset=utf-8''),
      End (redirect_body dest)]"

text \<open>The body of the outer \<^verbatim>\<open>try\<close>: the effects performed, and whether it threw.\<close>

definition try_block ::
  "(nat list \<Rightarrow> jsstring option) \<Rightarrow> env \<Rightarrow> (jsstring \<Rightarrow> fetch_outcome) \<Rightarrow> request
     \<Rightarrow> event list \<times> completion" where
  "try_block idna e fetch req =
     (let rid = query_rid req;
          rawDest = query_dest req
      in if \<not> truthy rawDest then (plain 400 (str ''Missing dest parameter''), Normal)
         else (case normalizeDest idna rawDest of
                 None \<Rightarrow> (plain 400 (str ''Invalid dest URL''), Normal)
               | Some dest \<Rightarrow>
                   if dest = [] then (plain 400 (str ''Invalid dest URL''), Normal)
                   else (case allowlist_check idna (or_empty (ALLOWED_DOMAINS e)) dest of
                           None \<Rightarrow> ([], Throw)
                         | Some ok \<Rightarrow>
                             if \<not> ok then
                               (plain 403 (str ''Destination domain not allowed''), Normal)
                             else
                               (notify fetch (or_empty (TRACKER_URL e)) rid dest
                                @ redirect dest, Normal))))"

text \<open>\<^verbatim>\<open>module.exports\<close>: the \<^verbatim>\<open>try\<close> block and the \<^verbatim>\<open>catch\<close> that answers 500.\<close>

definition handler ::
  "(nat list \<Rightarrow> jsstring option) \<Rightarrow> env \<Rightarrow> (jsstring \<Rightarrow> fetch_outcome) \<Rightarrow> request \<Rightarrow> event list" where
  "handler idna e fetch req =
     (case try_block idna e fetch req of
        (events, Normal) \<Rightarrow> events
      | (events, Throw) \<Rightarrow>
          events @ [ConsoleError, StatusCode 500, SetHeader (str ''Content-Type'') text_plain,
                    End (str ''Server error'')])"

subsection \<open>The response object\<close>

text \<open>
  \<^verbatim>\<open>res\<close> after the handler has run: the status code, the headers (a later
  \<^verbatim>\<open>setHeader\<close> of the same name, compared without case, replaces the earlier one) and the
  bodies passed to \<^verbatim>\<open>res.end\<close>, one for each call.
\<close>

record res =
  statusCode :: nat
  headers :: "(jsstring \<times> jsstring) list"
  sent :: "jsstring list"

fun apply_event :: "res \<Rightarrow> event \<Rightarrow> res" where
  "apply_event r (StatusCode n) = r\<lparr>statusCode := n\<rparr>"
| "apply_event r (SetHeader k v) =
     r\<lparr>headers := filter (\<lambda>(k', v'). map ascii_lower k' \<noteq> map ascii_lower k) (headers r) @ [(k, v)]\<rparr>"
| "apply_event r (End b) = r\<lparr>sent := sent r @ [b]\<rparr>"
| "apply_event r _ = r"

definition response :: "event list \<Rightarrow> res" where
  "response events = foldl apply_event \<lparr>statusCode = 200, headers = [], sent = []\<rparr> events"

text \<open>The outbound requests among the effects.\<close>

definition outbound :: "event list \<Rightarrow> jsstring list" where
  "outbound events = concat (map (\<lambda>ev. case ev of Fetch t \<Rightarrow> [t] | _ \<Rightarrow> []) events)"

text \<open>The calls of \<^verbatim>\<open>res.end\<close> among the effects.\<close>

fun is_end :: "event \<Rightarrow> bool" where
  "is_end (End b) = True"
| "is_end _ = False"

text \<open>
  Instances used to run the model: a \<^verbatim>\<open>Unicode ToASCII\<close> that rejects every domain it is
  asked about (so only plain ASCII domains parse), and a tracker with a fixed behaviour.
\<close>

definition no_idna :: "nat list \<Rightarrow> jsstring option" where
  "no_idna d = None"

definition fetch_always :: "fetch_outcome \<Rightarrow> jsstring \<Rightarrow> fetch_outcome" where
  "fetch_always outcome t = outcome"

text \<open>
  What UTS 46 guarantees of \<^verbatim>\<open>Unicode ToASCII\<close> and the theorems on hostnames assume
  of \<open>idna\<close>: a result consists of ASCII code points, none of them an upper-case letter
  (the mapping step lower-cases, and Punycode writes lower-case letters and digits).
\<close>

definition lower_ascii :: "nat \<Rightarrow> bool" where
  "lower_ascii c = (is_ascii c \<and> \<not> is_upper c)"

definition idna_lower_ascii :: "(nat list \<Rightarrow> jsstring option) \<Rightarrow> bool" where
  "idna_lower_ascii idna = (\<forall>d r. idna d = Some r \<longrightarrow> list_all lower_ascii r)"

section \<open>Evaluation\<close>

text \<open>The defining equations that evaluate the model on a concrete input.\<close>

lemmas url_eval = str_def is_upper_def is_lower_def is_alpha_def is_digit_def is_hex_digit_def hex_val_def ascii_lower_def is_ascii_def hex_upper_def percent_byte_def utf8_encode_def is_high_surrogate_def is_low_surrogate_def surrogate_pair_def utf16_encode_def hex_octet_def is_continuation_def leading_ones_def uri_unescaped_def escape_code_point_def is_js_whitespace_def trim_def endsWith_def c0_control_set_def fragment_set_def query_set_def special_query_set_def path_set_def userinfo_set_def utf8_percent_encode_def percent_encode_string_def forbidden_host_code_point_def forbidden_domain_code_point_def utf8_decode_without_BOM_def has_xn_label_def domain_to_ASCII_def digits_value_def is_octal_digit_def ipv4_number_def ends_in_number_def ipv4_parse_def ipv4_serialize_def ipv4_piece_def ipv6_finish_def ipv6_parse_def hex_lower_def compress_step_def compressed_piece_index_def ipv6_step_def ipv6_serialize_def host_parse_def default_port_def is_c0_or_space_def is_tab_or_newline_def is_scheme_char_def scheme_state_def is_slash_def ends_authority_def credentials_def port_state_def is_single_dot_def is_double_dot_def path_segment_def path_start_state_def special_url_def URL_parse_def href_def protocol_def hostname_def or_empty_def DEFAULT_TRACK_TIMEOUT_MS_def has_scheme_def is_http_def safe_decode_def add_scheme_def normalizeDest_def no_idna_def fetch_always_def query_dest_def query_rid_def text_plain_def redirect_body_def allowedList_def host_ok_def allowlist_check_def trackerUrl_def notify_def Let_def


section \<open>The handler's responses\<close>

lemma href_not_empty: "href u \<noteq> []"
  by (simp add: href_def str_def)

lemma normalizeDest_href:
  assumes "normalizeDest idna raw = Some d"
  shows "\<exists>u. d = href u \<and> is_http (protocol u)"
  using assms
  by (auto simp: normalizeDest_def split: if_splits parsed.splits)

lemma normalizeDest_not_empty: "normalizeDest idna raw = Some d \<Longrightarrow> d \<noteq> []"
  by (auto dest!: normalizeDest_href simp: href_not_empty)

lemma response_append: "response (xs @ ys) = foldl apply_event (response xs) ys"
  by (simp add: response_def)

lemma response_notify: "response (notify fetch tracker rid dest) = \<lparr>statusCode = 200, headers = [], sent = []\<rparr>"
  by (simp add: notify_def response_def split: option.splits fetch_outcome.splits)

lemma response_plain:
  "response (plain code msg) = \<lparr>statusCode = code, headers = [(str ''content-type'', text_plain)], sent = [msg]\<rparr>"
  by (simp add: response_def plain_def)

lemma response_redirect:
  "response (notify fetch tracker rid dest @ redirect dest) =
     \<lparr>statusCode = 302,
      headers = [(str ''Location'', dest), (str ''Content-Type'', str ''text/html; charset=utf-8'')],
      sent = [redirect_body dest]\<rparr>"
  by (simp add: response_append response_notify redirect_def str_def ascii_lower_def is_upper_def)

lemma outbound_plain: "outbound (plain code msg) = []"
  by (simp add: outbound_def plain_def)

lemma outbound_redirect: "outbound (redirect dest) = []"
  by (simp add: outbound_def redirect_def)

lemma outbound_append: "outbound (xs @ ys) = outbound xs @ outbound ys"
  by (simp add: outbound_def)

text \<open>The handler as a decision list.\<close>

lemma handler_cases:
  "handler idna e fetch req =
     (if \<not> truthy (query_dest req) then plain 400 (str ''Missing dest parameter'')
      else case normalizeDest idna (query_dest req) of
             None \<Rightarrow> plain 400 (str ''Invalid dest URL'')
           | Some dest \<Rightarrow>
               (case allowlist_check idna (or_empty (ALLOWED_DOMAINS e)) dest of
                  None \<Rightarrow> [ConsoleError, StatusCode 500,
                           SetHeader (str ''Content-Type'') text_plain, End (str ''Server error'')]
                | Some ok \<Rightarrow>
                    if ok then notify fetch (or_empty (TRACKER_URL e)) (query_rid req) dest @ redirect dest
                    else plain 403 (str ''Destination domain not allowed'')))"
  by (auto simp: handler_def try_block_def Let_def dest: normalizeDest_not_empty
      split: option.splits)

lemma filter_end_notify: "filter is_end (notify fetch tracker rid dest) = []"
  by (simp add: notify_def split: option.splits fetch_outcome.splits)

lemma allowlist_check_empty: "allowlist_check idna [] dest = Some True"
  by (simp add: allowlist_check_def trim_def)

lemma outbound_error:
  "outbound [ConsoleError, StatusCode 500, SetHeader k v, End b] = []"
  by (simp add: outbound_def)

text \<open>
  C2: a request whose \<^verbatim>\<open>dest\<close> parameter is absent or the empty string is answered
  400 with the plain-text body "Missing dest parameter". The effects are these three and
  no others whatever the environment, the URL parser's parameter and the tracker are: no
  outbound call is made, and nothing of the normalization or the allowlist enters.
\<close>

theorem C2_missing_dest:
  assumes "query_dest req = Undefined \<or> query_dest req = JString []"
  shows "handler idna e fetch req =
           [StatusCode 400, SetHeader (str ''content-type'') (str ''text/plain; charset=utf-8''),
            End (str ''Missing dest parameter'')]
         \<and> response (handler idna e fetch req) =
           \<lparr>statusCode = 400,
            headers = [(str ''content-type'', str ''text/plain; charset=utf-8'')],
            sent = [str ''Missing dest parameter'']\<rparr>
         \<and> outbound (handler idna e fetch req) = []"
proof -
  have "\<not> truthy (query_dest req)"
    using assms by auto
  then have h: "handler idna e fetch req = plain 400 (str ''Missing dest parameter'')"
    by (simp add: handler_cases)
  show ?thesis
    unfolding h by (simp add: response_plain outbound_plain) (simp add: plain_def text_plain_def)
qed

theorem C2_missing_dest_witness:
  "(query_dest \<lparr>req_query = Some \<lparr>q_rid = JString (str ''abc123''), q_dest = JString []\<rparr>\<rparr> = Undefined
     \<or> query_dest \<lparr>req_query = Some \<lparr>q_rid = JString (str ''abc123''), q_dest = JString []\<rparr>\<rparr> = JString [])
   \<and> response (handler (\<lambda>d. None)
          \<lparr>ALLOWED_DOMAINS = Some (str ''behance.net''), TRACKER_URL = Some (str ''https://t.example/exec'')\<rparr>
          (\<lambda>t. Fulfilled 200)
          \<lparr>req_query = Some \<lparr>q_rid = JString (str ''abc123''), q_dest = JString []\<rparr>\<rparr>)
       = \<lparr>statusCode = 400,
          headers = [(str ''content-type'', str ''text/plain; charset=utf-8'')],
          sent = [str ''Missing dest parameter'']\<rparr>"
proof -
  have h: "query_dest \<lparr>req_query = Some \<lparr>q_rid = JString (str ''abc123''), q_dest = JString []\<rparr>\<rparr> = Undefined
     \<or> query_dest \<lparr>req_query = Some \<lparr>q_rid = JString (str ''abc123''), q_dest = JString []\<rparr>\<rparr> = JString []"
    by (simp add: query_dest_def)
  show ?thesis
    using h C2_missing_dest [OF h] by blast
qed

text \<open>
  C6: when \<^verbatim>\<open>ALLOWED_DOMAINS\<close> is unset or empty, the allowlist check allows every
  destination, no request is answered 403, and every request whose destination passes
  normalization is answered with the redirect.
\<close>

theorem C6_allowlist_unset:
  assumes "ALLOWED_DOMAINS e = None \<or> ALLOWED_DOMAINS e = Some []"
  shows "allowlist_check idna (or_empty (ALLOWED_DOMAINS e)) dest = Some True
         \<and> statusCode (response (handler idna e fetch req)) \<noteq> 403
         \<and> (normalizeDest idna (query_dest req) = Some dest \<longrightarrow>
              response (handler idna e fetch req) =
                \<lparr>statusCode = 302,
                 headers = [(str ''Location'', dest),
                            (str ''Content-Type'', str ''text/html; charset=utf-8'')],
                 sent = [redirect_body dest]\<rparr>)"
proof -
  have a: "or_empty (ALLOWED_DOMAINS e) = []"
    using assms by (auto simp: or_empty_def)
  have c: "allowlist_check idna (or_empty (ALLOWED_DOMAINS e)) d = Some True" for d
    by (simp add: a allowlist_check_empty)
  have t: "truthy (query_dest req)" if "normalizeDest idna (query_dest req) = Some dest"
    using that by (auto simp: normalizeDest_def split: if_splits)
  show ?thesis
    by (auto simp: c t handler_cases response_plain response_redirect split: option.splits)
qed

theorem C6_allowlist_unset_witness:
  "(ALLOWED_DOMAINS \<lparr>ALLOWED_DOMAINS = None, TRACKER_URL = None\<rparr> = None
      \<or> ALLOWED_DOMAINS \<lparr>ALLOWED_DOMAINS = None, TRACKER_URL = None\<rparr> = Some [])
   \<and> normalizeDest (\<lambda>d. None) (JString (str ''evil.example/x'')) = Some (str ''https://evil.example/x'')
   \<and> statusCode (response (handler (\<lambda>d. None) \<lparr>ALLOWED_DOMAINS = None, TRACKER_URL = None\<rparr>
        (\<lambda>t. Rejected) \<lparr>req_query = Some \<lparr>q_rid = Undefined, q_dest = JString (str ''evil.example/x'')\<rparr>\<rparr>)) = 302"
proof -
  have n: "normalizeDest (\<lambda>d. None) (JString (str ''evil.example/x'')) = Some (str ''https://evil.example/x'')"
    by (simp add: url_eval)
  show ?thesis
    using C6_allowlist_unset [of "\<lparr>ALLOWED_DOMAINS = None, TRACKER_URL = None\<rparr>" "\<lambda>d. None"
        "str ''https://evil.example/x''" "\<lambda>t. Rejected"
        "\<lparr>req_query = Some \<lparr>q_rid = Undefined, q_dest = JString (str ''evil.example/x'')\<rparr>\<rparr>"] n
    by (simp add: query_dest_def)
qed

text \<open>
  C7: the response does not depend on what the tracker call does (\<open>fetch\<close> and \<open>fetch'\<close>
  are any two behaviours of the tracker: a response of any status, a network error, an
  abort by the timer, a throwing call), and a request that passes validation and the
  allowlist check is answered 302 with \<^verbatim>\<open>Location\<close> the normalized destination and an
  HTML body that links to it.
\<close>

theorem C7_tracker_failure_swallowed:
  "response (handler idna e fetch' req) = response (handler idna e fetch req)
   \<and> (normalizeDest idna (query_dest req) = Some dest
        \<and> allowlist_check idna (or_empty (ALLOWED_DOMAINS e)) dest = Some True \<longrightarrow>
      response (handler idna e fetch req) =
        \<lparr>statusCode = 302,
         headers = [(str ''Location'', dest),
                    (str ''Content-Type'', str ''text/html; charset=utf-8'')],
         sent = [redirect_body dest]\<rparr>
      \<and> (\<exists>pre post. redirect_body dest
            = pre @ str ''<a href=\"'' @ dest @ str ''\">click here</a>'' @ post))"
proof -
  have t: "truthy (query_dest req)" if "normalizeDest idna (query_dest req) = Some dest"
    using that by (auto simp: normalizeDest_def split: if_splits)
  have b: "redirect_body dest
      = (str ''<html><body>Redirecting'' @ [8230] @ str '' If you are not redirected automatically, '')
        @ str ''<a href=\"'' @ dest @ str ''\">click here</a>'' @ str ''.</body></html>''"
    by (simp add: redirect_body_def str_def)
  have "\<exists>pre post. redirect_body dest
            = pre @ str ''<a href=\"'' @ dest @ str ''\">click here</a>'' @ post"
    using b by blast
  moreover have "response (handler idna e fetch' req) = response (handler idna e fetch req)"
    by (simp add: handler_cases response_redirect split: option.splits)
  ultimately show ?thesis
    by (auto simp: t handler_cases response_redirect)
qed

theorem C7_tracker_failure_swallowed_witness:
  "normalizeDest (\<lambda>d. None) (query_dest \<lparr>req_query = Some \<lparr>q_rid = JString (str ''abc123''),
      q_dest = JString (str ''sub.behance.net/x'')\<rparr>\<rparr>) = Some (str ''https://sub.behance.net/x'')
   \<and> allowlist_check (\<lambda>d. None)
        (or_empty (ALLOWED_DOMAINS \<lparr>ALLOWED_DOMAINS = Some (str ''behance.net''),
           TRACKER_URL = Some (str ''https://t.example/exec'')\<rparr>))
        (str ''https://sub.behance.net/x'') = Some True
   \<and> response (handler (\<lambda>d. None)
        \<lparr>ALLOWED_DOMAINS = Some (str ''behance.net''), TRACKER_URL = Some (str ''https://t.example/exec'')\<rparr>
        (\<lambda>t. Aborted)
        \<lparr>req_query = Some \<lparr>q_rid = JString (str ''abc123''), q_dest = JString (str ''sub.behance.net/x'')\<rparr>\<rparr>)
     = \<lparr>statusCode = 302,
        headers = [(str ''Location'', str ''https://sub.behance.net/x''),
                   (str ''Content-Type'', str ''text/html; charset=utf-8'')],
        sent = [redirect_body (str ''https://sub.behance.net/x'')]\<rparr>"
proof -
  have n: "normalizeDest (\<lambda>d. None) (query_dest \<lparr>req_query = Some \<lparr>q_rid = JString (str ''abc123''),
      q_dest = JString (str ''sub.behance.net/x'')\<rparr>\<rparr>) = Some (str ''https://sub.behance.net/x'')"
    by (simp add: query_dest_def url_eval)
  have a: "allowlist_check (\<lambda>d. None)
        (or_empty (ALLOWED_DOMAINS \<lparr>ALLOWED_DOMAINS = Some (str ''behance.net''),
           TRACKER_URL = Some (str ''https://t.example/exec'')\<rparr>))
        (str ''https://sub.behance.net/x'') = Some True"
    by (simp add: url_eval)
  show ?thesis
    using n a C7_tracker_failure_swallowed [of "\<lambda>d. None"
        "\<lparr>ALLOWED_DOMAINS = Some (str ''behance.net''), TRACKER_URL = Some (str ''https://t.example/exec'')\<rparr>"
        "\<lambda>t. Aborted"
        "\<lparr>req_query = Some \<lparr>q_rid = JString (str ''abc123''), q_dest = JString (str ''sub.behance.net/x'')\<rparr>\<rparr>"
        "\<lambda>t. Aborted" "str ''https://sub.behance.net/x''"]
    by blast
qed

text \<open>
  C8: when \<^verbatim>\<open>TRACKER_URL\<close> is unset or empty the handler makes no outbound call, its
  response is the one it gives with any tracker configured, and a request that passes
  validation and the allowlist check has exactly the four effects of the redirect.
\<close>

theorem C8_no_tracker:
  assumes "TRACKER_URL e = None \<or> TRACKER_URL e = Some []"
  shows "outbound (handler idna e fetch req) = []
         \<and> response (handler idna (e\<lparr>TRACKER_URL := t\<rparr>) fetch' req) = response (handler idna e fetch req)
         \<and> (normalizeDest idna (query_dest req) = Some dest
              \<and> allowlist_check idna (or_empty (ALLOWED_DOMAINS e)) dest = Some True \<longrightarrow>
            handler idna e fetch req =
              [StatusCode 302, SetHeader (str ''Location'') dest,
               SetHeader (str ''Content-Type'') (str ''text/html; charset=utf-8''),
               End (redirect_body dest)])"
proof -
  have a: "or_empty (TRACKER_URL e) = []"
    using assms by (auto simp: or_empty_def)
  have n: "notify fetch [] rid d = []" for rid d
    by (simp add: notify_def)
  have t: "truthy (query_dest req)" if "normalizeDest idna (query_dest req) = Some dest"
    using that by (auto simp: normalizeDest_def split: if_splits)
  have "outbound (handler idna e fetch req) = []"
    by (simp add: handler_cases a n outbound_plain outbound_redirect outbound_error split: option.splits)
  moreover have "response (handler idna (e\<lparr>TRACKER_URL := t\<rparr>) fetch' req) = response (handler idna e fetch req)"
    by (simp add: handler_cases response_redirect split: option.splits)
  moreover have "handler idna e fetch req =
              [StatusCode 302, SetHeader (str ''Location'') dest,
               SetHeader (str ''Content-Type'') (str ''text/html; charset=utf-8''),
               End (redirect_body dest)]"
    if "normalizeDest idna (query_dest req) = Some dest"
      and "allowlist_check idna (or_empty (ALLOWED_DOMAINS e)) dest = Some True"
    using that by (simp add: handler_cases t a n redirect_def)
  ultimately show ?thesis
    by blast
qed

theorem C8_no_tracker_witness:
  "(TRACKER_URL \<lparr>ALLOWED_DOMAINS = None, TRACKER_URL = None\<rparr> = None
      \<or> TRACKER_URL \<lparr>ALLOWED_DOMAINS = None, TRACKER_URL = None\<rparr> = Some [])
   \<and> normalizeDest (\<lambda>d. None) (query_dest \<lparr>req_query = Some \<lparr>q_rid = JString (str ''abc123''),
        q_dest = JString (str ''example.com'')\<rparr>\<rparr>) = Some (str ''https://example.com/'')
   \<and> allowlist_check (\<lambda>d. None) (or_empty (ALLOWED_DOMAINS \<lparr>ALLOWED_DOMAINS = None, TRACKER_URL = None\<rparr>))
        (str ''https://example.com/'') = Some True
   \<and> outbound (handler (\<lambda>d. None) \<lparr>ALLOWED_DOMAINS = None, TRACKER_URL = None\<rparr> (\<lambda>t. Fulfilled 200)
        \<lparr>req_query = Some \<lparr>q_rid = JString (str ''abc123''), q_dest = JString (str ''example.com'')\<rparr>\<rparr>) = []
   \<and> handler (\<lambda>d. None) \<lparr>ALLOWED_DOMAINS = None, TRACKER_URL = None\<rparr> (\<lambda>t. Fulfilled 200)
        \<lparr>req_query = Some \<lparr>q_rid = JString (str ''abc123''), q_dest = JString (str ''example.com'')\<rparr>\<rparr>
     = [StatusCode 302, SetHeader (str ''Location'') (str ''https://example.com/''),
        SetHeader (str ''Content-Type'') (str ''text/html; charset=utf-8''),
        End (redirect_body (str ''https://example.com/''))]"
proof -
  have t: "TRACKER_URL \<lparr>ALLOWED_DOMAINS = None, TRACKER_URL = None\<rparr> = None
      \<or> TRACKER_URL \<lparr>ALLOWED_DOMAINS = None, TRACKER_URL = None\<rparr> = Some []"
    by simp
  have n: "normalizeDest (\<lambda>d. None) (query_dest \<lparr>req_query = Some \<lparr>q_rid = JString (str ''abc123''),
        q_dest = JString (str ''example.com'')\<rparr>\<rparr>) = Some (str ''https://example.com/'')"
    by (simp add: query_dest_def url_eval)
  have a: "allowlist_check (\<lambda>d. None) (or_empty (ALLOWED_DOMAINS \<lparr>ALLOWED_DOMAINS = None, TRACKER_URL = None\<rparr>))
        (str ''https://example.com/'') = Some True"
    by (simp add: url_eval)
  show ?thesis
    using t n a C8_no_tracker [OF t, of "\<lambda>d. None" "\<lambda>t. Fulfilled 200"
        "\<lparr>req_query = Some \<lparr>q_rid = JString (str ''abc123''), q_dest = JString (str ''example.com'')\<rparr>\<rparr>"
        None "\<lambda>t. Fulfilled 200" "str ''https://example.com/''"]
    by blast
qed

text \<open>
  C9: on every path the handler calls \<^verbatim>\<open>res.end\<close> exactly once, and the status and body
  it sends are those of the first case that applies: 400 "Missing dest parameter",
  400 "Invalid dest URL", 500 "Server error" when the allowlist block throws,
  403 "Destination domain not allowed", and the 302 redirect otherwise, whatever the
  tracker block does.
\<close>

theorem C9_exactly_one_response:
  "length (filter is_end (handler idna e fetch req)) = 1
   \<and> (\<exists>body. sent (response (handler idna e fetch req)) = [body]
        \<and> (statusCode (response (handler idna e fetch req)), body) =
            (if \<not> truthy (query_dest req) then (400, str ''Missing dest parameter'')
             else case normalizeDest idna (query_dest req) of
                    None \<Rightarrow> (400, str ''Invalid dest URL'')
                  | Some dest \<Rightarrow>
                      (case allowlist_check idna (or_empty (ALLOWED_DOMAINS e)) dest of
                         None \<Rightarrow> (500, str ''Server error'')
                       | Some ok \<Rightarrow>
                           if ok then (302, redirect_body dest)
                           else (403, str ''Destination domain not allowed''))))"
proof -
  have 1: "length (filter is_end (handler idna e fetch req)) = 1"
    by (simp add: handler_cases plain_def redirect_def filter_end_notify split: option.splits)
  have 2: "response [ConsoleError, StatusCode 500, SetHeader (str ''Content-Type'') text_plain,
                     End (str ''Server error'')]
           = \<lparr>statusCode = 500, headers = [(str ''Content-Type'', text_plain)], sent = [str ''Server error'']\<rparr>"
    by (simp add: response_def)
  show ?thesis
    using 1 by (simp add: handler_cases response_plain response_redirect 2 split: option.splits)
qed

theorem C9_exactly_one_response_witness:
  "length (filter is_end (handler (\<lambda>d. None)
      \<lparr>ALLOWED_DOMAINS = Some (str ''behance.net''), TRACKER_URL = Some (str ''https://t.example/exec'')\<rparr>
      (\<lambda>t. Throws)
      \<lparr>req_query = Some \<lparr>q_rid = Undefined, q_dest = JString (str ''evilbehance.net'')\<rparr>\<rparr>)) = 1
   \<and> sent (response (handler (\<lambda>d. None)
      \<lparr>ALLOWED_DOMAINS = Some (str ''behance.net''), TRACKER_URL = Some (str ''https://t.example/exec'')\<rparr>
      (\<lambda>t. Throws)
      \<lparr>req_query = Some \<lparr>q_rid = Undefined, q_dest = JString (str ''evilbehance.net'')\<rparr>\<rparr>))
     = [str ''Destination domain not allowed'']
   \<and> statusCode (response (handler (\<lambda>d. None)
      \<lparr>ALLOWED_DOMAINS = Some (str ''behance.net''), TRACKER_URL = Some (str ''https://t.example/exec'')\<rparr>
      (\<lambda>t. Throws)
      \<lparr>req_query = Some \<lparr>q_rid = Undefined, q_dest = JString (str ''evilbehance.net'')\<rparr>\<rparr>)) = 403"
proof -
  have n: "normalizeDest (\<lambda>d. None) (JString (str ''evilbehance.net'')) = Some (str ''https://evilbehance.net/'')"
    by (simp add: url_eval)
  have a: "allowlist_check (\<lambda>d. None) (str ''behance.net'') (str ''https://evilbehance.net/'') = Some False"
    by (simp add: url_eval)
  have t: "str ''evilbehance.net'' \<noteq> []"
    by (simp add: str_def)
  show ?thesis
    using C9_exactly_one_response [of "\<lambda>d. None"
        "\<lparr>ALLOWED_DOMAINS = Some (str ''behance.net''), TRACKER_URL = Some (str ''https://t.example/exec'')\<rparr>"
        "\<lambda>t. Throws"
        "\<lparr>req_query = Some \<lparr>q_rid = Undefined, q_dest = JString (str ''evilbehance.net'')\<rparr>\<rparr>"]
    by (auto simp: query_dest_def or_empty_def n a t)
qed

section \<open>Normalization and schemes\<close>

lemma special_url_scheme: "special_url idna sch s = Parsed u \<Longrightarrow> url_scheme u = sch"
  by (auto simp: special_url_def Let_def split: prod.splits if_splits option.splits)

lemma special_url_not_other: "special_url idna sch s \<noteq> Other_scheme x"
  by (auto simp: special_url_def Let_def split: prod.splits if_splits option.splits)

lemma URL_parse_special:
  "URL_parse idna x = Parsed u \<Longrightarrow> default_port (url_scheme u) \<noteq> None"
  by (auto simp: URL_parse_def Let_def dest!: special_url_scheme split: option.splits if_splits)

lemma default_port_cases:
  "default_port sch \<noteq> None \<Longrightarrow>
     sch = str ''ftp'' \<or> sch = str ''http'' \<or> sch = str ''ws'' \<or> sch = str ''https'' \<or> sch = str ''wss''"
  by (auto simp: default_port_def split: if_splits)

lemma is_http_scheme:
  assumes "default_port (url_scheme u) \<noteq> None"
  shows "is_http (protocol u) \<longleftrightarrow> url_scheme u = str ''http'' \<or> url_scheme u = str ''https''"
  using default_port_cases [OF assms]
  by (auto simp: is_http_def protocol_def str_def ascii_lower_def is_upper_def)

lemma normalizeDest_eq:
  "normalizeDest idna raw =
     (if \<not> truthy raw then None
      else case URL_parse idna (add_scheme (safe_decode (String raw))) of
             Parsed u \<Rightarrow>
               if url_scheme u = str ''http'' \<or> url_scheme u = str ''https'' then Some (href u) else None
           | _ \<Rightarrow> None)"
  by (auto simp: normalizeDest_def is_http_scheme dest!: URL_parse_special split: parsed.splits)

text \<open>Parsing a string that starts with http:// or https://.\<close>

lemma usv_Cons:
  "\<not> is_high_surrogate c \<Longrightarrow> \<not> is_low_surrogate c \<Longrightarrow> usv (c # s) = c # usv s"
  by (cases s) auto

lemma dropWhile_append_keep:
  "ys \<noteq> [] \<Longrightarrow> \<not> P (hd ys) \<Longrightarrow> dropWhile P (xs @ ys) = dropWhile P xs @ ys"
  by (induction xs) (auto simp: neq_Nil_conv)

lemma strip_trailing_Cons:
  "\<not> P c \<Longrightarrow> rev (dropWhile P (rev (c # s))) = c # rev (dropWhile P (rev s))"
  by (simp add: dropWhile_append_keep)

lemma URL_parse_http_prefix:
  assumes "sch = str ''http'' \<or> sch = str ''https''"
  shows "\<exists>rest. URL_parse idna (sch @ str ''://'' @ s) = special_url idna sch rest"
proof -
  have n: "\<not> is_c0_or_space c" "\<not> is_tab_or_newline c" "\<not> is_high_surrogate c" "\<not> is_low_surrogate c"
    if "c \<in> set (str ''https://'')" for c
    using that by (auto simp: str_def is_c0_or_space_def is_tab_or_newline_def
        is_high_surrogate_def is_low_surrogate_def)
  show ?thesis
    using assms
    by (auto simp: URL_parse_def str_def usv_Cons is_high_surrogate_def is_low_surrogate_def
        is_c0_or_space_def is_tab_or_newline_def dropWhile_append_keep scheme_state_def
        is_alpha_def is_lower_def is_upper_def is_scheme_char_def is_digit_def ascii_lower_def
        default_port_def)
qed

lemma href_prefix: "\<exists>s. href u = url_scheme u @ str ''://'' @ s"
  by (auto simp: href_def)

lemma normalizeDest_reparse:
  assumes "normalizeDest idna raw = Some d"
  shows "(take 7 d = str ''http://'' \<or> take 8 d = str ''https://'')"
    and "URL_parse idna d \<noteq> Other_scheme x"
    and "URL_parse idna d = Parsed v \<Longrightarrow> url_scheme v = str ''http'' \<or> url_scheme v = str ''https''"
proof -
  obtain u where u: "d = href u" "url_scheme u = str ''http'' \<or> url_scheme u = str ''https''"
    using assms by (auto simp: normalizeDest_eq split: if_splits parsed.splits)
  obtain s where s: "d = url_scheme u @ str ''://'' @ s"
    using u(1) href_prefix by blast
  show "take 7 d = str ''http://'' \<or> take 8 d = str ''https://''"
    using u(2) s by (auto simp: str_def)
  obtain rest where r: "URL_parse idna d = special_url idna (url_scheme u) rest"
    using URL_parse_http_prefix [OF u(2), of idna s] s by auto
  show "URL_parse idna d \<noteq> Other_scheme x"
    by (simp add: r special_url_not_other)
  show "url_scheme v = str ''http'' \<or> url_scheme v = str ''https''" if "URL_parse idna d = Parsed v"
    using that r special_url_scheme u(2) by metis
qed

text \<open>
  C1, as amended: for every non-empty string \<^verbatim>\<open>dest\<close> whose normalized form (one
  percent-decoding, then the default scheme) does not parse as a URL with scheme
  \<^verbatim>\<open>http\<close> or \<^verbatim>\<open>https\<close>, the handler answers 400 with the plain-text body
  "Invalid dest URL"; and whatever normalization returns is the serialization of a URL
  with one of these two schemes, starts with \<^verbatim>\<open>http://\<close> or \<^verbatim>\<open>https://\<close>, and parses
  again, if at all, with one of these two schemes.
\<close>

theorem C1_invalid_dest:
  "(query_dest req = JString s \<and> s \<noteq> []
      \<and> \<not> (\<exists>u. URL_parse idna (add_scheme (safe_decode s)) = Parsed u
                \<and> (url_scheme u = str ''http'' \<or> url_scheme u = str ''https''))
     \<longrightarrow> handler idna e fetch req =
           [StatusCode 400, SetHeader (str ''content-type'') (str ''text/plain; charset=utf-8''),
            End (str ''Invalid dest URL'')])
   \<and> (normalizeDest idna raw = Some d
     \<longrightarrow> (take 7 d = str ''http://'' \<or> take 8 d = str ''https://'')
         \<and> (\<exists>u. d = href u \<and> (url_scheme u = str ''http'' \<or> url_scheme u = str ''https''))
         \<and> (\<forall>v. URL_parse idna d = Parsed v
               \<longrightarrow> url_scheme v = str ''http'' \<or> url_scheme v = str ''https'')
         \<and> (\<forall>x. URL_parse idna d \<noteq> Other_scheme x))"
proof (intro conjI impI)
  assume a: "query_dest req = JString s \<and> s \<noteq> []
      \<and> \<not> (\<exists>u. URL_parse idna (add_scheme (safe_decode s)) = Parsed u
                \<and> (url_scheme u = str ''http'' \<or> url_scheme u = str ''https''))"
  then have "normalizeDest idna (query_dest req) = None"
    by (auto simp: normalizeDest_eq split: parsed.splits)
  then show "handler idna e fetch req =
           [StatusCode 400, SetHeader (str ''content-type'') (str ''text/plain; charset=utf-8''),
            End (str ''Invalid dest URL'')]"
    using a by (simp add: handler_cases plain_def text_plain_def)
next
  assume n: "normalizeDest idna raw = Some d"
  show "take 7 d = str ''http://'' \<or> take 8 d = str ''https://''"
    by (rule normalizeDest_reparse(1) [OF n])
  show "\<exists>u. d = href u \<and> (url_scheme u = str ''http'' \<or> url_scheme u = str ''https'')"
    using n by (auto simp: normalizeDest_eq split: if_splits parsed.splits)
  show "\<forall>v. URL_parse idna d = Parsed v
               \<longrightarrow> url_scheme v = str ''http'' \<or> url_scheme v = str ''https''"
    using normalizeDest_reparse(3) [OF n] by blast
  show "\<forall>x. URL_parse idna d \<noteq> Other_scheme x"
    using normalizeDest_reparse(2) [OF n] by blast
qed

theorem C1_invalid_dest_witness:
  "query_dest \<lparr>req_query = Some \<lparr>q_rid = Undefined, q_dest = JString (str ''javascript:alert(1)'')\<rparr>\<rparr>
     = JString (str ''javascript:alert(1)'')
   \<and> str ''javascript:alert(1)'' \<noteq> []
   \<and> URL_parse no_idna (add_scheme (safe_decode (str ''javascript:alert(1)''))) = Failure
   \<and> handler no_idna \<lparr>ALLOWED_DOMAINS = None, TRACKER_URL = None\<rparr> (fetch_always Rejected)
        \<lparr>req_query = Some \<lparr>q_rid = Undefined, q_dest = JString (str ''javascript:alert(1)'')\<rparr>\<rparr>
     = [StatusCode 400, SetHeader (str ''content-type'') (str ''text/plain; charset=utf-8''),
        End (str ''Invalid dest URL'')]
   \<and> normalizeDest no_idna (JString (str ''example.com/path'')) = Some (str ''https://example.com/path'')
   \<and> take 8 (str ''https://example.com/path'') = str ''https://''"
proof -
  have q: "query_dest \<lparr>req_query = Some \<lparr>q_rid = Undefined, q_dest = JString (str ''javascript:alert(1)'')\<rparr>\<rparr>
     = JString (str ''javascript:alert(1)'')"
    by (simp add: query_dest_def)
  have ne: "str ''javascript:alert(1)'' \<noteq> []"
    by (simp add: str_def)
  have f: "URL_parse no_idna (add_scheme (safe_decode (str ''javascript:alert(1)''))) = Failure"
    by (simp add: url_eval)
  have n: "normalizeDest no_idna (JString (str ''example.com/path'')) = Some (str ''https://example.com/path'')"
    by (simp add: url_eval)
  have t: "take 8 (str ''https://example.com/path'') = str ''https://''"
    by (simp add: str_def)
  show ?thesis
    using q ne f n t
      C1_invalid_dest [of "\<lparr>req_query = Some \<lparr>q_rid = Undefined, q_dest = JString (str ''javascript:alert(1)'')\<rparr>\<rparr>"
        "str ''javascript:alert(1)''" no_idna "\<lparr>ALLOWED_DOMAINS = None, TRACKER_URL = None\<rparr>"
        "fetch_always Rejected" "JString (str ''example.com/path'')" "str ''https://example.com/path''"]
    by simp
qed

text \<open>
  C1 as stated fails at the empty string: its normalized form \<^verbatim>\<open>https://\<close> does not
  parse, and the handler answers "Missing dest parameter", not "Invalid dest URL".
\<close>

theorem C1_empty_dest_counterexample:
  "URL_parse no_idna (add_scheme (safe_decode [])) = Failure
   \<and> handler no_idna \<lparr>ALLOWED_DOMAINS = None, TRACKER_URL = None\<rparr> (fetch_always Rejected)
        \<lparr>req_query = Some \<lparr>q_rid = Undefined, q_dest = JString []\<rparr>\<rparr>
     = [StatusCode 400, SetHeader (str ''content-type'') (str ''text/plain; charset=utf-8''),
        End (str ''Missing dest parameter'')]
   \<and> str ''Missing dest parameter'' \<noteq> str ''Invalid dest URL''"
  by (simp add: url_eval handler_def try_block_def plain_def)


lemma has_scheme_iff: "has_scheme raw \<longleftrightarrow> starts_with_uri_scheme raw"
proof
  assume h: "has_scheme raw"
  then obtain c cs where raw: "raw = c # cs" and c: "is_alpha c"
    and t: "take 3 (dropWhile is_scheme_char cs) = str ''://''"
    by (auto simp: has_scheme_def split: list.splits)
  have "cs = takeWhile is_scheme_char cs @ dropWhile is_scheme_char cs"
    by simp
  also have "dropWhile is_scheme_char cs = str ''://'' @ drop 3 (dropWhile is_scheme_char cs)"
    using t append_take_drop_id [of 3 "dropWhile is_scheme_char cs"] by simp
  finally have "raw = c # takeWhile is_scheme_char cs @ str ''://'' @ drop 3 (dropWhile is_scheme_char cs)"
    using raw by simp
  moreover have "\<forall>x \<in> set (takeWhile is_scheme_char cs). is_alpha x \<or> is_digit x \<or> x \<in> set (str ''+-.'')"
    by (auto dest!: set_takeWhileD simp: is_scheme_char_def str_def)
  ultimately show "starts_with_uri_scheme raw"
    unfolding starts_with_uri_scheme_def using c by blast
next
  assume "starts_with_uri_scheme raw"
  then obtain a body rest where raw: "raw = a # body @ str ''://'' @ rest" and a: "is_alpha a"
    and b: "\<forall>c \<in> set body. is_alpha c \<or> is_digit c \<or> c \<in> set (str ''+-.'')"
    unfolding starts_with_uri_scheme_def by blast
  have "\<forall>c \<in> set body. is_scheme_char c"
    using b by (auto simp: is_scheme_char_def str_def)
  then have "dropWhile is_scheme_char (body @ str ''://'' @ rest) = str ''://'' @ rest"
    by (simp add: dropWhile_append3 str_def is_scheme_char_def is_alpha_def is_digit_def
        is_upper_def is_lower_def dropWhile_append)
  then show "has_scheme raw"
    using raw a by (simp add: has_scheme_def str_def)
qed

text \<open>
  C3: normalization applies \<^verbatim>\<open>decodeURIComponent\<close> once and keeps the string when that
  throws, puts \<^verbatim>\<open>https://\<close> in front unless the string starts with a URI-scheme prefix
  (letter, then letters, digits, \<^verbatim>\<open>+ - .\<close>, then \<^verbatim>\<open>://\<close>), and returns the serialized
  URL when its scheme is \<^verbatim>\<open>http\<close> or \<^verbatim>\<open>https\<close>. \<^verbatim>\<open>example.com/path\<close> gives
  \<^verbatim>\<open>https://example.com/path\<close>; \<^verbatim>\<open>%2541\<close> is decoded once, to \<^verbatim>\<open>%41\<close>; a string
  whose decoding throws is kept; and the request \<^verbatim>\<open>?dest=example.com&rid=abc123\<close> with
  no environment configuration is answered 302 with \<^verbatim>\<open>Location: https://example.com/\<close>
  and a body that holds \<^verbatim>\<open>href="https://example.com/"\<close>.
\<close>

theorem C3_normalization:
  "(has_scheme raw \<longleftrightarrow> starts_with_uri_scheme raw)
   \<and> normalizeDest idna (JString s) =
       (if s = [] then None
        else case URL_parse idna
                    (let decoded = (case decodeURIComponent s of None \<Rightarrow> s | Some d \<Rightarrow> d)
                     in if starts_with_uri_scheme decoded then decoded
                        else str ''https://'' @ decoded) of
               Parsed u \<Rightarrow>
                 if url_scheme u = str ''http'' \<or> url_scheme u = str ''https''
                 then Some (href u) else None
             | _ \<Rightarrow> None)
   \<and> normalizeDest idna (JString (str ''example.com/path'')) = Some (str ''https://example.com/path'')
   \<and> normalizeDest idna (JString (str ''example.com/%2541'')) = Some (str ''https://example.com/%41'')
   \<and> normalizeDest idna (JString (str ''example.com/%'')) = Some (str ''https://example.com/%'')
   \<and> response (handler idna \<lparr>ALLOWED_DOMAINS = None, TRACKER_URL = None\<rparr> fetch
         \<lparr>req_query = Some \<lparr>q_rid = JString (str ''abc123''), q_dest = JString (str ''example.com'')\<rparr>\<rparr>)
       = \<lparr>statusCode = 302,
          headers = [(str ''Location'', str ''https://example.com/''),
                     (str ''Content-Type'', str ''text/html; charset=utf-8'')],
          sent = [redirect_body (str ''https://example.com/'')]\<rparr>
   \<and> (\<exists>pre post. redirect_body (str ''https://example.com/'')
          = pre @ str ''href=\"https://example.com/\"'' @ post)"
proof -
  have 1: "normalizeDest idna (JString (str ''example.com/path'')) = Some (str ''https://example.com/path'')"
    by (simp add: url_eval)
  have 2: "normalizeDest idna (JString (str ''example.com/%2541'')) = Some (str ''https://example.com/%41'')"
    by (simp add: url_eval)
  have 3: "normalizeDest idna (JString (str ''example.com/%'')) = Some (str ''https://example.com/%'')"
    by (simp add: url_eval)
  have 4: "normalizeDest idna (JString (str ''example.com'')) = Some (str ''https://example.com/'')"
    by (simp add: url_eval)
  have 5: "response (handler idna \<lparr>ALLOWED_DOMAINS = None, TRACKER_URL = None\<rparr> fetch
         \<lparr>req_query = Some \<lparr>q_rid = JString (str ''abc123''), q_dest = JString (str ''example.com'')\<rparr>\<rparr>)
       = \<lparr>statusCode = 302,
          headers = [(str ''Location'', str ''https://example.com/''),
                     (str ''Content-Type'', str ''text/html; charset=utf-8'')],
          sent = [redirect_body (str ''https://example.com/'')]\<rparr>"
    by (simp add: handler_cases query_dest_def 4 or_empty_def allowlist_check_empty response_redirect)
       (simp add: str_def)
  have "redirect_body (str ''https://example.com/'')
      = (str ''<html><body>Redirecting'' @ [8230] @ str '' If you are not redirected automatically, <a '')
        @ str ''href=\"https://example.com/\"'' @ str ''>click here</a>.</body></html>''"
    by (simp add: redirect_body_def str_def)
  then have 6: "\<exists>pre post. redirect_body (str ''https://example.com/'')
          = pre @ str ''href=\"https://example.com/\"'' @ post"
    by blast
  have 7: "normalizeDest idna (JString s) =
       (if s = [] then None
        else case URL_parse idna
                    (let decoded = (case decodeURIComponent s of None \<Rightarrow> s | Some d \<Rightarrow> d)
                     in if starts_with_uri_scheme decoded then decoded
                        else str ''https://'' @ decoded) of
               Parsed u \<Rightarrow>
                 if url_scheme u = str ''http'' \<or> url_scheme u = str ''https''
                 then Some (href u) else None
             | _ \<Rightarrow> None)"
    by (simp add: normalizeDest_eq add_scheme_def safe_decode_def has_scheme_iff Let_def)
  show ?thesis
    using 1 2 3 5 6 7 has_scheme_iff by blast
qed

theorem C3_normalization_witness:
  "has_scheme (str ''http://example.com'') \<and> starts_with_uri_scheme (str ''http://example.com'')
   \<and> \<not> has_scheme (str ''example.com/path'') \<and> \<not> starts_with_uri_scheme (str ''example.com/path'')
   \<and> normalizeDest no_idna (JString (str ''example.com/path'')) = Some (str ''https://example.com/path'')"
proof -
  have 1: "has_scheme (str ''http://example.com'')"
    by (simp add: url_eval)
  have 2: "\<not> has_scheme (str ''example.com/path'')"
    by (simp add: url_eval)
  show ?thesis
    using 1 2 C3_normalization [of "str ''http://example.com''" no_idna "[]" "fetch_always Rejected"]
      C3_normalization [of "str ''example.com/path''" no_idna "[]" "fetch_always Rejected"]
    by blast
qed

section \<open>The allowlist\<close>

lemma split_on_not_empty: "split_on sep s \<noteq> []"
  by (induction s) (auto split: list.splits)

lemma join_comma_Cons: "join_comma ((c # a) # xs) = c # join_comma (a # xs)"
  by (cases xs) simp_all

lemma join_split: "join_comma (split_on 44 s) = s"
proof (induction s)
  case (Cons c s)
  then show ?case
    using split_on_not_empty [of 44 s]
    by (cases "split_on 44 s") (auto simp: join_comma_Cons split: list.splits)
qed simp

lemma split_on_no_sep: "p \<in> set (split_on sep s) \<Longrightarrow> sep \<notin> set p"
  by (induction s arbitrary: p) (auto split: list.splits if_splits)

lemma trim_parts:
  "\<exists>l r. s = l @ trim s @ r \<and> list_all is_js_whitespace l \<and> list_all is_js_whitespace r"
proof -
  let ?m = "dropWhile is_js_whitespace s"
  have "s = takeWhile is_js_whitespace s @ ?m"
    by simp
  moreover have "rev ?m = takeWhile is_js_whitespace (rev ?m) @ dropWhile is_js_whitespace (rev ?m)"
    by simp
  then have "?m = trim s @ rev (takeWhile is_js_whitespace (rev ?m))"
    by (metis rev_append rev_rev_ident trim_def)
  moreover have "list_all is_js_whitespace (takeWhile is_js_whitespace s)"
    "list_all is_js_whitespace (rev (takeWhile is_js_whitespace (rev ?m)))"
    by (auto simp: list_all_iff dest: set_takeWhileD)
  ultimately show ?thesis
    by metis
qed

lemma trim_ends:
  assumes "trim s \<noteq> []"
  shows "\<not> is_js_whitespace (hd (trim s))" and "\<not> is_js_whitespace (last (trim s))"
proof -
  let ?m = "dropWhile is_js_whitespace s"
  let ?t = "dropWhile is_js_whitespace (rev ?m)"
  have t: "?t \<noteq> []"
    using assms by (simp add: trim_def)
  then have "\<not> is_js_whitespace (hd ?t)"
    by (rule hd_dropWhile)
  then show "\<not> is_js_whitespace (last (trim s))"
    using t by (simp add: trim_def last_rev)
  have "rev ?m \<noteq> []"
    using t by (metis dropWhile.simps(1))
  then have m: "?m \<noteq> []"
    by simp
  have "?t = rev (trim s)"
    by (simp add: trim_def)
  obtain k where "?t = drop k (rev ?m)"
    by (metis dropWhile_eq_drop)
  then have "trim s = take (length ?m - k) ?m"
    by (simp add: trim_def rev_drop)
  then have "hd (trim s) = hd ?m"
    using assms by (metis hd_take take_eq_Nil not_gr_zero)
  then show "\<not> is_js_whitespace (hd (trim s))"
    using hd_dropWhile [OF m] by simp
qed

lemma endsWith_iff: "endsWith s t \<longleftrightarrow> (\<exists>p. s = p @ t)"
proof
  assume "endsWith s t"
  then have "s = take (length s - length t) s @ t"
    by (metis append_take_drop_id endsWith_def)
  then show "\<exists>p. s = p @ t" ..
next
  assume "\<exists>p. s = p @ t"
  then show "endsWith s t"
    by (auto simp: endsWith_def)
qed

lemma host_ok_iff:
  "host_ok host as \<longleftrightarrow> (\<exists>a \<in> set as. host = a \<or> (\<exists>p. host = p @ 46 # a))"
  by (auto simp: host_ok_def list_ex_iff endsWith_iff)

lemma set_allowedList:
  "set (allowedList allowed) = {trim p | p. p \<in> set (split_on 44 allowed) \<and> trim p \<noteq> []}"
  by (auto simp: allowedList_def)

text \<open>
  C5, as amended: when \<^verbatim>\<open>ALLOWED_DOMAINS\<close> holds a character that is not white space,
  the allowlist consists of the comma-separated pieces of the value, trimmed, without the
  empty ones, and the destination is redirected if its hostname equals an entry or ends
  with a dot followed by an entry, and is answered 403 "Destination domain not allowed"
  otherwise. The witness runs \<^verbatim>\<open>sub.behance.net\<close> (allowed) and \<^verbatim>\<open>evilbehance.net\<close>
  (denied) against \<^verbatim>\<open>behance.net\<close>.
\<close>

theorem C5_allowlist:
  assumes "ALLOWED_DOMAINS e = Some allowed" and "trim allowed \<noteq> []"
    and "normalizeDest idna (query_dest req) = Some dest" and "URL_parse idna dest = Parsed u"
  shows "join_comma (split_on 44 allowed) = allowed
         \<and> (\<forall>p \<in> set (split_on 44 allowed). 44 \<notin> set p)
         \<and> (\<forall>p. \<exists>l r. p = l @ trim p @ r \<and> list_all is_js_whitespace l
                \<and> list_all is_js_whitespace r)
         \<and> set (allowedList allowed) = {trim p | p. p \<in> set (split_on 44 allowed) \<and> trim p \<noteq> []}
         \<and> response (handler idna e fetch req) =
             (if \<exists>a \<in> set (allowedList allowed). hostname u = a \<or> (\<exists>p. hostname u = p @ 46 # a)
              then \<lparr>statusCode = 302,
                    headers = [(str ''Location'', dest),
                               (str ''Content-Type'', str ''text/html; charset=utf-8'')],
                    sent = [redirect_body dest]\<rparr>
              else \<lparr>statusCode = 403,
                    headers = [(str ''content-type'', str ''text/plain; charset=utf-8'')],
                    sent = [str ''Destination domain not allowed'']\<rparr>)"
proof -
  have t: "truthy (query_dest req)"
    using assms(3) by (auto simp: normalizeDest_def split: if_splits)
  have c: "allowlist_check idna (or_empty (ALLOWED_DOMAINS e)) dest
           = Some (\<exists>a \<in> set (allowedList allowed). hostname u = a \<or> (\<exists>p. hostname u = p @ 46 # a))"
    using assms by (simp add: allowlist_check_def or_empty_def host_ok_iff)
  have "response (handler idna e fetch req) =
             (if \<exists>a \<in> set (allowedList allowed). hostname u = a \<or> (\<exists>p. hostname u = p @ 46 # a)
              then \<lparr>statusCode = 302,
                    headers = [(str ''Location'', dest),
                               (str ''Content-Type'', str ''text/html; charset=utf-8'')],
                    sent = [redirect_body dest]\<rparr>
              else \<lparr>statusCode = 403,
                    headers = [(str ''content-type'', str ''text/plain; charset=utf-8'')],
                    sent = [str ''Destination domain not allowed'']\<rparr>)"
    by (simp add: handler_cases t assms(3) c response_redirect response_plain text_plain_def)
  then show ?thesis
    using join_split split_on_no_sep set_allowedList trim_parts by blast
qed

theorem C5_allowlist_witness:
  "ALLOWED_DOMAINS \<lparr>ALLOWED_DOMAINS = Some (str ''behance.net''), TRACKER_URL = None\<rparr>
     = Some (str ''behance.net'')
   \<and> trim (str ''behance.net'') \<noteq> []
   \<and> allowedList (str ''behance.net'') = [str ''behance.net'']
   \<and> normalizeDest no_idna (query_dest \<lparr>req_query = Some \<lparr>q_rid = Undefined,
         q_dest = JString (str ''sub.behance.net'')\<rparr>\<rparr>) = Some (str ''https://sub.behance.net/'')
   \<and> URL_parse no_idna (str ''https://sub.behance.net/'')
       = Parsed \<lparr>url_scheme = str ''https'', url_username = [], url_password = [],
           url_host = Domain (str ''sub.behance.net''), url_port = None, url_path = [[]],
           url_query = None, url_fragment = None\<rparr>
   \<and> statusCode (response (handler no_idna
         \<lparr>ALLOWED_DOMAINS = Some (str ''behance.net''), TRACKER_URL = None\<rparr> (fetch_always Rejected)
         \<lparr>req_query = Some \<lparr>q_rid = Undefined, q_dest = JString (str ''sub.behance.net'')\<rparr>\<rparr>)) = 302
   \<and> normalizeDest no_idna (query_dest \<lparr>req_query = Some \<lparr>q_rid = Undefined,
         q_dest = JString (str ''evilbehance.net'')\<rparr>\<rparr>) = Some (str ''https://evilbehance.net/'')
   \<and> URL_parse no_idna (str ''https://evilbehance.net/'')
       = Parsed \<lparr>url_scheme = str ''https'', url_username = [], url_password = [],
           url_host = Domain (str ''evilbehance.net''), url_port = None, url_path = [[]],
           url_query = None, url_fragment = None\<rparr>
   \<and> response (handler no_idna
         \<lparr>ALLOWED_DOMAINS = Some (str ''behance.net''), TRACKER_URL = None\<rparr> (fetch_always Rejected)
         \<lparr>req_query = Some \<lparr>q_rid = Undefined, q_dest = JString (str ''evilbehance.net'')\<rparr>\<rparr>)
       = \<lparr>statusCode = 403,
          headers = [(str ''content-type'', str ''text/plain; charset=utf-8'')],
          sent = [str ''Destination domain not allowed'']\<rparr>"
proof -
  let ?e = "\<lparr>ALLOWED_DOMAINS = Some (str ''behance.net''), TRACKER_URL = None\<rparr>"
  let ?r1 = "\<lparr>req_query = Some \<lparr>q_rid = Undefined, q_dest = JString (str ''sub.behance.net'')\<rparr>\<rparr>"
  let ?r2 = "\<lparr>req_query = Some \<lparr>q_rid = Undefined, q_dest = JString (str ''evilbehance.net'')\<rparr>\<rparr>"
  let ?u1 = "\<lparr>url_scheme = str ''https'', url_username = [], url_password = [],
           url_host = Domain (str ''sub.behance.net''), url_port = None, url_path = [[]],
           url_query = None, url_fragment = None\<rparr>"
  let ?u2 = "\<lparr>url_scheme = str ''https'', url_username = [], url_password = [],
           url_host = Domain (str ''evilbehance.net''), url_port = None, url_path = [[]],
           url_query = None, url_fragment = None\<rparr>"
  have e: "ALLOWED_DOMAINS ?e = Some (str ''behance.net'')"
    by simp
  have t: "trim (str ''behance.net'') \<noteq> []"
    by (simp add: url_eval)
  have l: "allowedList (str ''behance.net'') = [str ''behance.net'']"
    by (simp add: url_eval)
  have n1: "normalizeDest no_idna (query_dest ?r1) = Some (str ''https://sub.behance.net/'')"
    by (simp add: url_eval)
  have p1: "URL_parse no_idna (str ''https://sub.behance.net/'') = Parsed ?u1"
    by (simp add: url_eval)
  have n2: "normalizeDest no_idna (query_dest ?r2) = Some (str ''https://evilbehance.net/'')"
    by (simp add: url_eval)
  have p2: "URL_parse no_idna (str ''https://evilbehance.net/'') = Parsed ?u2"
    by (simp add: url_eval)
  have k1: "host_ok (hostname ?u1) (allowedList (str ''behance.net''))"
    by (simp add: url_eval)
  have k2: "\<not> host_ok (hostname ?u2) (allowedList (str ''behance.net''))"
    by (simp add: url_eval)
  have "statusCode (response (handler no_idna ?e (fetch_always Rejected) ?r1)) = 302"
    using C5_allowlist [OF e t n1 p1, of "fetch_always Rejected"] k1
    by (simp add: host_ok_iff)
  moreover have "response (handler no_idna ?e (fetch_always Rejected) ?r2)
       = \<lparr>statusCode = 403,
          headers = [(str ''content-type'', str ''text/plain; charset=utf-8'')],
          sent = [str ''Destination domain not allowed'']\<rparr>"
    using C5_allowlist [OF e t n2 p2, of "fetch_always Rejected"] k2
    by (simp add: host_ok_iff)
  ultimately show ?thesis
    using e t l n1 p1 n2 p2 by blast
qed

text \<open>
  C5 as stated fails for a value of white space only: it is not empty and has no
  entries, so no hostname equals or extends an entry, yet line 49 skips the check and the
  destination is redirected.
\<close>

theorem C5_whitespace_counterexample:
  "str '' '' \<noteq> []
   \<and> allowedList (str '' '') = []
   \<and> response (handler no_idna \<lparr>ALLOWED_DOMAINS = Some (str '' ''), TRACKER_URL = None\<rparr>
          (fetch_always Rejected)
          \<lparr>req_query = Some \<lparr>q_rid = Undefined, q_dest = JString (str ''example.com'')\<rparr>\<rparr>)
       = \<lparr>statusCode = 302,
          headers = [(str ''Location'', str ''https://example.com/''),
                     (str ''Content-Type'', str ''text/html; charset=utf-8'')],
          sent = [redirect_body (str ''https://example.com/'')]\<rparr>"
proof -
  have n: "normalizeDest no_idna (JString (str ''example.com'')) = Some (str ''https://example.com/'')"
    by (simp add: url_eval)
  have a: "allowlist_check no_idna (str '' '') (str ''https://example.com/'') = Some True"
    by (simp add: allowlist_check_def trim_def is_js_whitespace_def str_def)
  have t: "str ''example.com'' \<noteq> []"
    by (simp add: str_def)
  have "response (handler no_idna \<lparr>ALLOWED_DOMAINS = Some (str '' ''), TRACKER_URL = None\<rparr>
          (fetch_always Rejected)
          \<lparr>req_query = Some \<lparr>q_rid = Undefined, q_dest = JString (str ''example.com'')\<rparr>\<rparr>)
       = \<lparr>statusCode = 302,
          headers = [(str ''Location'', str ''https://example.com/''),
                     (str ''Content-Type'', str ''text/html; charset=utf-8'')],
          sent = [redirect_body (str ''https://example.com/'')]\<rparr>"
    by (simp add: handler_cases query_dest_def t n a or_empty_def response_redirect)
  moreover have "str '' '' \<noteq> []" "allowedList (str '' '') = []"
    by (simp_all add: url_eval)
  ultimately show ?thesis
    by blast
qed


section \<open>Hostnames\<close>

lemma decimal_digits: "c \<in> set (decimal n) \<Longrightarrow> is_digit c"
proof (induction n rule: decimal.induct)
  case (1 n)
  then show ?case
    by (subst (asm) (2) decimal.simps) (auto simp: is_digit_def split: if_splits)
qed

lemma hexadecimal_digits: "c \<in> set (hexadecimal n) \<Longrightarrow> is_digit c \<or> (97 \<le> c \<and> c \<le> 102)"
proof (induction n rule: hexadecimal.induct)
  case (1 n)
  then show ?case
    by (subst (asm) (2) hexadecimal.simps) (auto simp: is_digit_def hex_lower_def split: if_splits)
qed

lemma ipv6_step_chars:
  assumes "\<forall>c \<in> set (fst st). P c" and "P 58" and "\<And>n c. c \<in> set (hexadecimal n) \<Longrightarrow> P c"
  shows "\<forall>c \<in> set (fst (foldl (ipv6_step k) st xs)). P c"
  using assms(1)
proof (induction xs arbitrary: st)
  case (Cons x xs)
  have "\<forall>c \<in> set (fst (ipv6_step k st x)). P c"
    using Cons.prems assms(2,3)
    by (cases st; cases x) (auto simp: ipv6_step_def)
  then show ?case
    using Cons.IH by simp
qed simp

lemma ipv6_serialize_chars:
  "c \<in> set (ipv6_serialize a) \<Longrightarrow> is_digit c \<or> (97 \<le> c \<and> c \<le> 102) \<or> c = 58"
  using ipv6_step_chars [of "([], False)" "\<lambda>c. is_digit c \<or> (97 \<le> c \<and> c \<le> 102) \<or> c = 58"]
  by (auto simp: ipv6_serialize_def dest: hexadecimal_digits)

lemma domain_to_ASCII_lower:
  assumes "idna_lower_ascii idna" and "domain_to_ASCII idna d = Some r"
  shows "list_all lower_ascii r"
  using assms
  by (auto simp: domain_to_ASCII_def idna_lower_ascii_def lower_ascii_def list_all_iff
      ascii_lower_def is_ascii_def is_upper_def split: if_splits option.splits)

lemma host_serialize_lower:
  assumes "idna_lower_ascii idna" and "host_parse idna b = Some h"
  shows "list_all lower_ascii (host_serialize h)"
proof (cases h)
  case (Domain d)
  then have "\<exists>x. domain_to_ASCII idna x = Some d"
    using assms(2) by (auto simp: host_parse_def split: if_splits option.splits)
  then show ?thesis
    using Domain domain_to_ASCII_lower [OF assms(1)] by auto
next
  case (IPv4 n)
  then show ?thesis
    by (auto simp: ipv4_serialize_def list_all_iff lower_ascii_def is_ascii_def is_upper_def
        is_digit_def dest!: decimal_digits)
next
  case (IPv6 a)
  then show ?thesis
    by (auto simp: list_all_iff lower_ascii_def is_ascii_def is_upper_def
        is_digit_def dest!: ipv6_serialize_chars)
qed

lemma special_url_host:
  "special_url idna sch s = Parsed u \<Longrightarrow> \<exists>b. b \<noteq> [] \<and> host_parse idna b = Some (url_host u)"
  by (auto simp: special_url_def Let_def split: prod.splits if_splits option.splits)

lemma URL_parse_host:
  "URL_parse idna x = Parsed u \<Longrightarrow> \<exists>b. b \<noteq> [] \<and> host_parse idna b = Some (url_host u)"
  by (auto simp: URL_parse_def Let_def dest!: special_url_host split: option.splits if_splits)

lemma hostname_lower:
  assumes "idna_lower_ascii idna" and "URL_parse idna x = Parsed u"
  shows "list_all lower_ascii (hostname u)"
  using URL_parse_host [OF assms(2)] host_serialize_lower [OF assms(1)]
  by (auto simp: hostname_def)

text \<open>
  C10: the hostname of a parsed destination consists of ASCII code points none of which
  is an upper-case letter, and the allowlist compares code unit by code unit; so an
  entry of \<^verbatim>\<open>ALLOWED_DOMAINS\<close> that holds an upper-case letter (ASCII, or any other, which
  is not ASCII) neither equals a hostname nor is the end of one, and the decision for a
  hostname is the same with the entry as without it. The hypothesis on \<open>idna\<close> is the
  property of \<^verbatim>\<open>Unicode ToASCII\<close> stated with \<open>idna_lower_ascii\<close>.
\<close>

theorem C10_uppercase_entry_never_matches:
  assumes "idna_lower_ascii idna" and "URL_parse idna dest = Parsed u"
  shows "(\<forall>c \<in> set (hostname u). is_ascii c \<and> \<not> is_upper c)
         \<and> ((\<exists>c \<in> set a. is_upper c \<or> \<not> is_ascii c)
              \<longrightarrow> hostname u \<noteq> a \<and> \<not> endsWith (hostname u) (46 # a)
                  \<and> host_ok (hostname u) (a # as) = host_ok (hostname u) as)
         \<and> host_ok (hostname u) as
             = host_ok (hostname u) (filter (\<lambda>b. \<forall>c \<in> set b. is_ascii c \<and> \<not> is_upper c) as)"
proof -
  have l: "\<forall>c \<in> set (hostname u). is_ascii c \<and> \<not> is_upper c"
    using hostname_lower [OF assms] by (simp add: list_all_iff lower_ascii_def)
  have m: "hostname u \<noteq> b \<and> \<not> endsWith (hostname u) (46 # b)"
    if "\<exists>c \<in> set b. is_upper c \<or> \<not> is_ascii c" for b
  proof -
    have "hostname u \<noteq> b"
      using l that by auto
    moreover have "\<not> endsWith (hostname u) (46 # b)"
    proof
      assume "endsWith (hostname u) (46 # b)"
      then obtain p where "hostname u = p @ 46 # b"
        using endsWith_iff by blast
      then have "set b \<subseteq> set (hostname u)"
        by auto
      then show False
        using l that by auto
    qed
    ultimately show ?thesis ..
  qed
  have f: "host_ok (hostname u) as
             = host_ok (hostname u) (filter (\<lambda>b. \<forall>c \<in> set b. is_ascii c \<and> \<not> is_upper c) as)"
    using m by (auto simp: host_ok_def list_ex_iff)
  show ?thesis
    using l m f by (auto simp: host_ok_def)
qed

theorem C10_uppercase_entry_never_matches_witness:
  "idna_lower_ascii no_idna
   \<and> URL_parse no_idna (str ''https://behance.net/'')
       = Parsed \<lparr>url_scheme = str ''https'', url_username = [], url_password = [],
           url_host = Domain (str ''behance.net''), url_port = None, url_path = [[]],
           url_query = None, url_fragment = None\<rparr>
   \<and> (\<exists>c \<in> set (str ''Behance.net''). is_upper c \<or> \<not> is_ascii c)
   \<and> \<not> host_ok (str ''behance.net'') [str ''Behance.net'']
   \<and> normalizeDest no_idna (JString (str ''HTTPS://BEHANCE.NET'')) = Some (str ''https://behance.net/'')
   \<and> statusCode (response (handler no_idna
        \<lparr>ALLOWED_DOMAINS = Some (str ''Behance.net''), TRACKER_URL = None\<rparr> (fetch_always Rejected)
        \<lparr>req_query = Some \<lparr>q_rid = Undefined, q_dest = JString (str ''HTTPS://BEHANCE.NET'')\<rparr>\<rparr>)) = 403"
proof -
  let ?u = "\<lparr>url_scheme = str ''https'', url_username = [], url_password = [],
           url_host = Domain (str ''behance.net''), url_port = None, url_path = [[]],
           url_query = None, url_fragment = None\<rparr>"
  have i: "idna_lower_ascii no_idna"
    by (simp add: idna_lower_ascii_def no_idna_def)
  have p: "URL_parse no_idna (str ''https://behance.net/'') = Parsed ?u"
    by (simp add: url_eval)
  have c: "\<exists>c \<in> set (str ''Behance.net''). is_upper c \<or> \<not> is_ascii c"
    by (simp add: str_def is_upper_def)
  have h: "hostname ?u = str ''behance.net''"
    by (simp add: hostname_def)
  have n: "normalizeDest no_idna (JString (str ''HTTPS://BEHANCE.NET'')) = Some (str ''https://behance.net/'')"
    by (simp add: url_eval)
  have k: "\<not> host_ok (str ''behance.net'') [str ''Behance.net'']"
    using C10_uppercase_entry_never_matches [OF i p, of "str ''Behance.net''" "[]"] c h
    by (simp add: host_ok_def)
  have l: "allowedList (str ''Behance.net'') = [str ''Behance.net'']"
    by (simp add: url_eval)
  have t: "str ''HTTPS://BEHANCE.NET'' \<noteq> []"
    by (simp add: str_def)
  have r: "trim (str ''Behance.net'') \<noteq> []"
    by (simp add: url_eval)
  have "statusCode (response (handler no_idna
        \<lparr>ALLOWED_DOMAINS = Some (str ''Behance.net''), TRACKER_URL = None\<rparr> (fetch_always Rejected)
        \<lparr>req_query = Some \<lparr>q_rid = Undefined, q_dest = JString (str ''HTTPS://BEHANCE.NET'')\<rparr>\<rparr>)) = 403"
    using k by (simp add: handler_cases query_dest_def t n or_empty_def allowlist_check_def r p h l
        response_plain)
  then show ?thesis
    using i p c k n by blast
qed


end
